theory Spec2Isabelle
  imports Main
begin

section \<open>Middleware chain builder (package httputils)\<close>

text \<open>
  A \<open>Middleware\<close> is a function from a handler to a handler. \<open>ApplyMiddlewares\<close>
  is the loop \<^verbatim>\<open>for _, h := range middlewares { base = h(base) }; return base\<close>:
  the recursion below runs it from the first element of the slice, carrying the
  current value of \<open>base\<close>. Function values are modelled as total HOL functions
  (a nil function value, whose call panics, is not a value of the model).
\<close>

type_synonym 'h Middleware = "'h \<Rightarrow> 'h"

fun ApplyMiddlewares :: "'h \<Rightarrow> 'h Middleware list \<Rightarrow> 'h" where
  "ApplyMiddlewares base [] = base"
| "ApplyMiddlewares base (h # middlewares) = ApplyMiddlewares (h base) middlewares"

text \<open>
  The middleware \<open>logger\<close> of the documentation comment of \<open>ApplyMiddlewares\<close>:
  it prints a line and then calls \<open>next\<close>. A handler is a function of the request
  and of the lines printed so far; the printed line is the parameter \<open>line\<close>.
\<close>

definition loggerMiddleware :: "'l \<Rightarrow> ('r \<Rightarrow> 'l list \<Rightarrow> 'l list) Middleware" where
  "loggerMiddleware line next = (\<lambda>r out. next r (out @ [line]))"

section \<open>Healthz endpoint (package healthz)\<close>

text \<open>
  A \<open>dependencyCheck\<close> is a Go function without arguments that returns a
  \<open>Dependency\<close> and a flag; it may read and change the world, so it takes a state
  and returns the new one. The type \<open>Dependency\<close> is generated code and is a type
  parameter here.
\<close>

type_synonym ('d, 's) dependencyCheck = "'s \<Rightarrow> ('d \<times> bool) \<times> 's"

record 'd Status =
  Dependencies :: "'d list"
  Status :: string

text \<open>The loop of the handler registered under \<open>/status\<close>, with its two variables.\<close>

fun healthz_loop ::
  "('d, 's) dependencyCheck list \<Rightarrow> 'd list \<Rightarrow> string \<Rightarrow> 's \<Rightarrow> ('d list \<times> string) \<times> 's" where
  "healthz_loop [] deps status s = ((deps, status), s)"
| "healthz_loop (dCheck # checks) deps status s =
     (case dCheck s of
        ((d, ok), s') \<Rightarrow>
          healthz_loop checks (deps @ [d]) (if \<not> ok then ''KO'' else status) s')"

text \<open>The handler: the value it encodes into the response, and the state after the checks.\<close>

definition HealthzHandler :: "('d, 's) dependencyCheck list \<Rightarrow> 's \<Rightarrow> 'd Status \<times> 's" where
  "HealthzHandler checks s =
     (case healthz_loop checks [] ''OK'' s of
        ((deps, status), s') \<Rightarrow> (\<lparr>Dependencies = deps, Status = status\<rparr>, s'))"

text \<open>
  What the checks return when they are called one after the other from state \<open>s\<close>:
  the reference the claim about the status is stated against.
\<close>

fun check_results :: "('d, 's) dependencyCheck list \<Rightarrow> 's \<Rightarrow> ('d \<times> bool) list" where
  "check_results [] s = []"
| "check_results (dCheck # checks) s =
     (case dCheck s of (res, s') \<Rightarrow> res # check_results checks s')"

section \<open>Structured logging values (standard library, package log/slog)\<close>

text \<open>
  The repository builds and reads \<open>slog.Attr\<close> values. An attribute is a key and a
  value; a value is a string, a number, a boolean, a time, a level, the zero
  value (kind \<open>Any\<close> holding nil) or a group of attributes. Floating point and
  the other kinds of \<open>slog.Value\<close> are left out: the repository never builds them.
\<close>

datatype Value =
    StringValue string
  | Int64Value int
  | BoolValue bool
  | TimeValue nat
  | LevelValue int
  | NilValue
  | GroupOf "Attr list"
and Attr = Attr (Key: string) (Val: Value)

definition slog_String :: "string \<Rightarrow> string \<Rightarrow> Attr" where
  "slog_String key v = Attr key (StringValue v)"

definition slog_Int :: "string \<Rightarrow> int \<Rightarrow> Attr" where
  "slog_Int key v = Attr key (Int64Value v)"

definition slog_Time :: "string \<Rightarrow> nat \<Rightarrow> Attr" where
  "slog_Time key t = Attr key (TimeValue t)"

text \<open>\<open>slog.Attr{}\<close>, the zero attribute, and the test \<open>isEmpty\<close> that recognises it.\<close>

definition zeroAttr :: Attr where
  "zeroAttr = Attr [] NilValue"

definition isEmpty :: "Attr \<Rightarrow> bool" where
  "isEmpty a = (Key a = [] \<and> Val a = NilValue)"

fun isEmptyGroup :: "Value \<Rightarrow> bool" where
  "isEmptyGroup (GroupOf as) = (as = [])"
| "isEmptyGroup v = False"

fun isGroup :: "Value \<Rightarrow> bool" where
  "isGroup (GroupOf as) = True"
| "isGroup v = False"

text \<open>\<open>slog.GroupValue\<close> and \<open>Record.AddAttrs\<close> both leave out attributes that are empty groups.\<close>

definition dropEmptyGroups :: "Attr list \<Rightarrow> Attr list" where
  "dropEmptyGroups as = filter (\<lambda>a. \<not> isEmptyGroup (Val a)) as"

definition GroupValue :: "Attr list \<Rightarrow> Value" where
  "GroupValue as = GroupOf (dropEmptyGroups as)"

definition slog_Group :: "string \<Rightarrow> Attr list \<Rightarrow> Attr" where
  "slog_Group key as = Attr key (GroupValue as)"

text \<open>Levels are integers; \<open>Level.String\<close> names them, with the offset from the nearest name below.\<close>

definition LevelDebug :: int where "LevelDebug = - 4"
definition LevelInfo :: int where "LevelInfo = 0"
definition LevelWarn :: int where "LevelWarn = 4"
definition LevelError :: int where "LevelError = 8"

definition digit_char :: "nat \<Rightarrow> char" where
  "digit_char d = char_of (48 + d)"

function decimal :: "nat \<Rightarrow> string" where
  "decimal n = (if n < 10 then [digit_char n] else decimal (n div 10) @ [digit_char (n mod 10)])"
  by pat_completeness auto
termination
  by (relation "measure id") auto

text \<open>\<open>fmt.Sprintf("%s%+d", base, val)\<close>: the sign is always printed.\<close>

definition level_str :: "string \<Rightarrow> int \<Rightarrow> string" where
  "level_str base val =
     (if val = 0 then base
      else base @ (if val < 0 then ''-'' else ''+'') @ decimal (nat \<bar>val\<bar>))"

definition Level_String :: "int \<Rightarrow> string" where
  "Level_String l =
     (if l < LevelInfo then level_str ''DEBUG'' (l - LevelDebug)
      else if l < LevelWarn then level_str ''INFO'' (l - LevelInfo)
      else if l < LevelError then level_str ''WARN'' (l - LevelWarn)
      else level_str ''ERROR'' (l - LevelError))"

text \<open>\<open>strings.ToLower\<close> on ASCII text (the names of the levels are ASCII).\<close>

definition lower_char :: "char \<Rightarrow> char" where
  "lower_char c =
     (if 65 \<le> (of_char c :: nat) \<and> (of_char c :: nat) \<le> 90 then char_of (of_char c + 32 :: nat) else c)"

definition ToLower :: "string \<Rightarrow> string" where
  "ToLower s = map lower_char s"

text \<open>
  A record. Its program counter is represented by the frame that
  \<open>runtime.CallersFrames\<close> resolves it to (the zero frame for an unknown pc).
  A zero \<open>Time\<close> is the time 0. The first five attributes of a record are held
  in the record itself and the others in a slice; \<open>back_written\<close> says that the
  array of that slice has a cell written past the end of the slice, as it has
  after \<open>AddAttrs\<close> on a copy of the record made without \<open>Clone\<close>.
\<close>

record Frame =
  File :: string
  Line :: int
  Function :: string

record Record =
  Time :: nat
  Message :: string
  Level :: int
  PC :: Frame
  record_attrs :: "Attr list"
  back_written :: bool

text \<open>
  \<open>Record.AddAttrs\<close> appends the attributes that are not empty groups: into the
  room left among the first five, then into the slice. Between the two it looks
  at the cell past the end of the slice, and when that cell has been written
  (\<open>Handle\<close> takes its record by value and does not clone it) it appends the
  attribute \<open>!BUG\<close> first.
\<close>

definition nAttrsInline :: nat where
  "nAttrsInline = 5"

definition bugAttr :: Attr where
  "bugAttr = slog_String ''!BUG''
     ''AddAttrs unsafely called on copy of Record made without using Record.Clone''"

definition AddAttrs :: "Record \<Rightarrow> Attr list \<Rightarrow> Record" where
  "AddAttrs r as =
     (let room = nAttrsInline - length (record_attrs r);
          kept = dropEmptyGroups as
      in r\<lparr>record_attrs :=
             record_attrs r @ take room kept
             @ (if back_written r then [bugAttr] else [])
             @ drop room kept,
           back_written := False\<rparr>)"

section \<open>Contexts (standard library, package context)\<close>

text \<open>
  A context is the chain of the values attached with \<open>context.WithValue\<close>, the
  latest first; \<open>Value\<close> returns the first value stored under the key. The keys
  of the repository are unexported variables of unexported types; any other key
  is an \<open>OtherKey\<close>. A stored value is a slice of attributes or a value of
  another type, on which the type assertion \<open>.([]slog.Attr)\<close> fails.
\<close>

datatype ctxKey = labelsAttributes | ecsAttributes | ctxAttrs | OtherKey string

datatype ctxValue = AttrSlice "Attr list" | OtherValue string

type_synonym Context = "(ctxKey \<times> ctxValue) list"

definition Background :: Context where
  "Background = []"

definition WithValue :: "Context \<Rightarrow> ctxKey \<Rightarrow> ctxValue \<Rightarrow> Context" where
  "WithValue ctx key v = (key, v) # ctx"

definition ctx_Value :: "Context \<Rightarrow> ctxKey \<Rightarrow> ctxValue option" where
  "ctx_Value ctx key = map_of ctx key"

section \<open>Requests (standard library, package net/http)\<close>

text \<open>
  A request carries its headers, its method and its context. \<open>http.Header\<close> is
  a Go map from canonical header names to the values received under the name;
  \<open>Header.Get\<close> canonicalises the name it is given and returns the first value
  stored under it, or the empty string.
\<close>

record Request =
  Header :: "string \<rightharpoonup> string list"
  Method :: string
  Ctx :: Context

definition is_upper :: "char \<Rightarrow> bool" where
  "is_upper c = (65 \<le> (of_char c :: nat) \<and> (of_char c :: nat) \<le> 90)"

definition is_lower :: "char \<Rightarrow> bool" where
  "is_lower c = (97 \<le> (of_char c :: nat) \<and> (of_char c :: nat) \<le> 122)"

definition is_digit :: "char \<Rightarrow> bool" where
  "is_digit c = (48 \<le> (of_char c :: nat) \<and> (of_char c :: nat) \<le> 57)"

definition validHeaderFieldByte :: "char \<Rightarrow> bool" where
  "validHeaderFieldByte c =
     (is_digit c \<or> is_lower c \<or> is_upper c \<or> c \<in> set ''!#$%&*+-.^_`|~'' \<or> of_char c = (39 :: nat))"

definition canonical_byte :: "bool \<Rightarrow> char \<Rightarrow> char" where
  "canonical_byte upper c =
     (if upper \<and> is_lower c then char_of (of_char c - 32 :: nat)
      else if \<not> upper \<and> is_upper c then char_of (of_char c + 32 :: nat)
      else c)"

fun canonical_bytes :: "bool \<Rightarrow> string \<Rightarrow> string" where
  "canonical_bytes upper [] = []"
| "canonical_bytes upper (c # cs) =
     canonical_byte upper c # canonical_bytes (canonical_byte upper c = CHR ''-'') cs"

definition CanonicalMIMEHeaderKey :: "string \<Rightarrow> string" where
  "CanonicalMIMEHeaderKey s =
     (if list_all validHeaderFieldByte s then canonical_bytes True s else s)"

definition Header_Get :: "(string \<rightharpoonup> string list) \<Rightarrow> string \<Rightarrow> string" where
  "Header_Get h key =
     (case h (CanonicalMIMEHeaderKey key) of
        None \<Rightarrow> []
      | Some [] \<Rightarrow> []
      | Some (v # vs) \<Rightarrow> v)"

section \<open>Context attribute stores and the attribute middleware (package log)\<close>

text \<open>
  An extractor returns an attribute and a flag that says whether the attribute
  is present.
\<close>

type_synonym LogExtract = "Request \<Rightarrow> Attr \<times> bool"

definition ExtractHeaderRename :: "string \<Rightarrow> string \<Rightarrow> LogExtract" where
  "ExtractHeaderRename name rename r =
     (let val = Header_Get (Header r) name
      in if length val \<noteq> 0 then (slog_String rename val, True) else (zeroAttr, False))"

definition GetLabelAttrs :: "Context \<Rightarrow> Attr list" where
  "GetLabelAttrs ctx =
     (case ctx_Value ctx labelsAttributes of
        Some (AttrSlice loadedAttrs) \<Rightarrow> loadedAttrs
      | Some (OtherValue x) \<Rightarrow> []
      | None \<Rightarrow> [])"

definition GetECSAttrs :: "Context \<Rightarrow> Attr list" where
  "GetECSAttrs ctx =
     (case ctx_Value ctx ecsAttributes of
        Some (AttrSlice loadedAttrs) \<Rightarrow> loadedAttrs
      | Some (OtherValue x) \<Rightarrow> []
      | None \<Rightarrow> [])"

text \<open>
  The variadic argument \<open>attrs\<close> is a list value here: the slice a call builds
  from its arguments, or the slice the middleware builds for each request, which
  nothing else reads or writes. \<open>append(attrs, GetLabelAttrs(ctx)...)\<close> puts the
  new attributes before the stored ones. The same function on slices that may
  share their arrays is \<open>AddLabelAttrs_slice\<close>, further down; \<open>addECSAttrs\<close>
  and \<open>AddAttrsCtx\<close> append to the slice of their caller in the same way.
\<close>

definition AddLabelAttrs :: "Context \<Rightarrow> Attr list \<Rightarrow> Context" where
  "AddLabelAttrs ctx attrs =
     WithValue ctx labelsAttributes (AttrSlice (attrs @ GetLabelAttrs ctx))"

definition addECSAttrs :: "Context \<Rightarrow> Attr list \<Rightarrow> Context" where
  "addECSAttrs ctx attrs =
     WithValue ctx ecsAttributes (AttrSlice (attrs @ GetECSAttrs ctx))"

text \<open>The store of the older version of the package, under the key \<open>ctxAttrs\<close>.\<close>

definition GetAttrsCtx :: "Context \<Rightarrow> Attr list" where
  "GetAttrsCtx ctx =
     (case ctx_Value ctx ctxAttrs of
        Some (AttrSlice loadedAttrs) \<Rightarrow> loadedAttrs
      | Some (OtherValue x) \<Rightarrow> []
      | None \<Rightarrow> [])"

definition AddAttrsCtx :: "Context \<Rightarrow> Attr list \<Rightarrow> Context" where
  "AddAttrsCtx ctx attrs =
     WithValue ctx ctxAttrs (AttrSlice (attrs @ GetAttrsCtx ctx))"

record middlewareOptions =
  labelExtractors :: "LogExtract list"
  ecsExtractors :: "LogExtract list"
  logRequest :: bool

type_synonym MiddlewareOption = "middlewareOptions \<Rightarrow> middlewareOptions"

definition LogRequest :: MiddlewareOption where
  "LogRequest o' = o'\<lparr>logRequest := True\<rparr>"

definition WithDefaultInfo :: MiddlewareOption where
  "WithDefaultInfo o' =
     o'\<lparr>ecsExtractors :=
          ecsExtractors o' @ [\<lambda>r. (slog_String ''http.request.method'' (Method r), True)]\<rparr>"

fun apply_options :: "MiddlewareOption list \<Rightarrow> middlewareOptions \<Rightarrow> middlewareOptions" where
  "apply_options [] options = options"
| "apply_options (o' # opts) options = apply_options opts (o' options)"

text \<open>
  The two loops over the extractors: \<open>acc\<close> is the slice built so far
  (\<open>ecsAttributes\<close>, \<open>labelAttributes\<close>), which starts empty.
\<close>

fun extract_loop :: "LogExtract list \<Rightarrow> Request \<Rightarrow> Attr list \<Rightarrow> Attr list" where
  "extract_loop [] r acc = acc"
| "extract_loop (extract # extractors) r acc =
     (case extract r of
        (attr, ok) \<Rightarrow> extract_loop extractors r (if ok then acc @ [attr] else acc))"

text \<open>The context the middleware builds for a request, before it calls the wrapped handler.\<close>

definition request_context :: "middlewareOptions \<Rightarrow> Request \<Rightarrow> Context" where
  "request_context options r =
     (let ecsAttributes' = extract_loop (ecsExtractors options) r [];
          ctx = addECSAttrs (Ctx r) ecsAttributes';
          labelAttributes = extract_loop (labelExtractors options) r []
      in AddLabelAttrs ctx labelAttributes)"

text \<open>
  The world a handler works on: the calls made on the default logger of
  \<open>log/slog\<close>, in order, and whatever else a handler changes (the response
  among it), which is the record's extension. A handler takes the request and
  the world and returns the world it leaves.
\<close>

datatype LogCall = LogCall (call_ctx: Context) (call_level: int) (call_msg: string)

record World =
  logCalls :: "LogCall list"

type_synonym 'x Handler = "Request \<Rightarrow> 'x World_scheme \<Rightarrow> 'x World_scheme"

definition slog_InfoContext :: "Context \<Rightarrow> string \<Rightarrow> 'x World_scheme \<Rightarrow> 'x World_scheme" where
  "slog_InfoContext ctx msg w = w\<lparr>logCalls := logCalls w @ [LogCall ctx LevelInfo msg]\<rparr>"

definition attributes_handler :: "middlewareOptions \<Rightarrow> 'x Handler \<Rightarrow> 'x Handler" where
  "attributes_handler options h r w =
     (let ctx = request_context options r;
          w' = h (r\<lparr>Ctx := ctx\<rparr>) w
      in if logRequest options then slog_InfoContext ctx ''HTTP Request handled'' w' else w')"

definition HTTPAttributesMiddleware :: "MiddlewareOption list \<Rightarrow> 'x Handler \<Rightarrow> 'x Handler" where
  "HTTPAttributesMiddleware opts =
     attributes_handler
       (apply_options opts \<lparr>labelExtractors = [], ecsExtractors = [], logRequest = False\<rparr>)"

section \<open>The JSON handler (standard library, package log/slog)\<close>

text \<open>
  The line the JSON handler writes for a record is modelled as the JSON object it
  denotes: its members in the order they are written (a key may occur twice; the
  handler does not merge). A time is kept as a time, not as its text, and a
  string stands for the JSON string that denotes it: the escapes, and the
  replacement characters written for text that is not UTF-8, are not shown.
\<close>

datatype Json =
    JString string
  | JNumber int
  | JBool bool
  | JTime nat
  | JNull
  | JObject "(string \<times> Json) list"

fun json_value :: "Value \<Rightarrow> Json" where
  "json_value (StringValue s) = JString s"
| "json_value (Int64Value i) = JNumber i"
| "json_value (BoolValue b) = JBool b"
| "json_value (TimeValue t) = JTime t"
| "json_value (LevelValue l) = JString (Level_String l)"
| "json_value NilValue = JNull"
| "json_value (GroupOf as) = JNull"

type_synonym ReplaceAttrFn = "string list \<Rightarrow> Attr \<Rightarrow> Attr"

record HandlerOptions =
  opt_Level :: int
  ReplaceAttr :: "ReplaceAttrFn option"

text \<open>
  What the handler writes for an attribute that is not a group, after
  \<open>ReplaceAttr\<close>: nothing for the empty attribute, the key and the value
  otherwise. The result is \<open>None\<close> where \<open>ReplaceAttr\<close> has returned a group:
  what the handler writes then is not described here.
\<close>

definition emit :: "Attr \<Rightarrow> (string \<times> Json) list option" where
  "emit a =
     (if isEmpty a then Some []
      else if isGroup (Val a) then None
      else Some [(Key a, json_value (Val a))])"

definition replaced :: "ReplaceAttrFn option \<Rightarrow> string list \<Rightarrow> Attr \<Rightarrow> Attr" where
  "replaced rep groups a = (case rep of None \<Rightarrow> a | Some f \<Rightarrow> f groups a)"

text \<open>
  \<open>appendAttr\<close>: \<open>ReplaceAttr\<close> is called on the attributes that are not groups,
  with the names of the open groups. A group with attributes is written as a
  nested object, in line when its key is empty. When nothing is written for the
  attributes of a group that has a key (\<open>ReplaceAttr\<close> drops them all, or they
  are all empty), the handler cuts the buffer back to where the group began,
  but the separator and the list of open groups stay as they were inside the
  group: what is written after it need not be a well-formed object, and the
  result is \<open>None\<close>.
\<close>

fun appendAttr :: "ReplaceAttrFn option \<Rightarrow> string list \<Rightarrow> Attr \<Rightarrow> (string \<times> Json) list option" where
  "appendAttr rep groups (Attr key (GroupOf as)) =
     (if as = [] then Some []
      else
        (case those (map (appendAttr rep (if key = [] then groups else groups @ [key])) as) of
           None \<Rightarrow> None
         | Some written \<Rightarrow>
             (if key = [] then Some (concat written)
              else if concat written = [] then None
              else Some [(key, JObject (concat written))])))"
| "appendAttr rep groups (Attr key v) = emit (replaced rep groups (Attr key v))"

text \<open>
  The built-in fields come first: the time unless it is zero, the level and the
  message (no source: the repository never sets \<open>AddSource\<close>), through
  \<open>ReplaceAttr\<close> when there is one; then the attributes of the record.
\<close>

definition builtIns :: "ReplaceAttrFn option \<Rightarrow> Record \<Rightarrow> (string \<times> Json) list option list" where
  "builtIns rep r =
     [if Time r = 0 then Some [] else emit (replaced rep [] (slog_Time ''time'' (Time r))),
      emit (replaced rep [] (Attr ''level'' (LevelValue (Level r)))),
      emit (replaced rep [] (slog_String ''msg'' (Message r)))]"

definition JSON_line :: "HandlerOptions \<Rightarrow> Record \<Rightarrow> Json option" where
  "JSON_line opts r =
     (case those (builtIns (ReplaceAttr opts) r
                  @ map (appendAttr (ReplaceAttr opts) []) (record_attrs r)) of
        None \<Rightarrow> None
      | Some written \<Rightarrow> Some (JObject (concat written)))"

text \<open>
  The handler holds its options and its writer. \<open>Handle\<close> formats the line and
  calls \<open>Write\<close> once; it returns the error of that call. The writer takes its
  state and the line (\<open>None\<close> for a line that is not described above) and
  returns its new state and its error, \<open>None\<close> for nil. \<open>Handle\<close> does not look
  at the level of the record: \<open>Enabled\<close> does, before \<open>Handle\<close> is called.
\<close>

record ('w, 'e) JSONHandler =
  handler_opts :: HandlerOptions
  handler_w :: "'w \<Rightarrow> Json option \<Rightarrow> 'w \<times> 'e option"

definition NewJSONHandler ::
  "('w \<Rightarrow> Json option \<Rightarrow> 'w \<times> 'e option) \<Rightarrow> HandlerOptions \<Rightarrow> ('w, 'e) JSONHandler" where
  "NewJSONHandler w opts = \<lparr>handler_opts = opts, handler_w = w\<rparr>"

definition JSONHandler_Handle ::
  "('w, 'e) JSONHandler \<Rightarrow> Context \<Rightarrow> Record \<Rightarrow> 'w \<Rightarrow> 'w \<times> 'e option" where
  "JSONHandler_Handle h ctx r w = handler_w h w (JSON_line (handler_opts h) r)"

section \<open>The ECS handler (packages ecshandler and log)\<close>

definition ecsVersion :: string where "ecsVersion = ''8.11.0''"
definition logger :: string where "logger = ''log/slog''"

definition ecsVersionKey :: string where "ecsVersionKey = ''ecs.version''"
definition timestampKey :: string where "timestampKey = ''@timestamp''"
definition messageKey :: string where "messageKey = ''message''"
definition logLevelKey :: string where "logLevelKey = ''log.level''"
definition logLoggerKey :: string where "logLoggerKey = ''log.logger''"
definition fileNameKey :: string where "fileNameKey = ''file.name''"
definition fileLineKey :: string where "fileLineKey = ''file.line''"
definition logOriginKey :: string where "logOriginKey = ''log.origin''"
definition functionKey :: string where "functionKey = ''function''"
definition labelsKey :: string where "labelsKey = ''labels''"

text \<open>
  The options. The two function values may be set to nil, which is \<open>None\<close>; a
  function that is not nil is a total function.
\<close>

record opts =
  opts_level :: int
  opts_levelRenamer :: "(int \<Rightarrow> string) option"
  opts_replaceAttr :: "ReplaceAttrFn option"

type_synonym Option = "opts \<Rightarrow> opts"

definition defaultReplaceAttr :: ReplaceAttrFn where
  "defaultReplaceAttr groups a =
     (if Key a = ''time'' \<or> Key a = ''msg'' \<or> Key a = ''source'' \<or> Key a = ''level''
      then zeroAttr else a)"

definition defaultOptions :: opts where
  "defaultOptions =
     \<lparr>opts_level = LevelDebug,
      opts_levelRenamer = Some (\<lambda>level. Level_String level),
      opts_replaceAttr = Some defaultReplaceAttr\<rparr>"

definition WithLevel :: "int \<Rightarrow> Option" where
  "WithLevel l o' = o'\<lparr>opts_level := l\<rparr>"

definition WithLevelRenamer :: "(int \<Rightarrow> string) option \<Rightarrow> Option" where
  "WithLevelRenamer fn o' = o'\<lparr>opts_levelRenamer := fn\<rparr>"

definition WithReplaceAttr :: "ReplaceAttrFn option \<Rightarrow> Option" where
  "WithReplaceAttr fn o' = o'\<lparr>opts_replaceAttr := fn\<rparr>"

text \<open>
  The handler embeds a pointer to a JSON handler and holds the level renamer;
  either may be nil in a value of the struct. \<open>NewECSHandler\<close> always sets the
  JSON handler, and sets the renamer to what the options leave.
\<close>

record ('w, 'e) ECSHandler =
  JSONHandler :: "('w, 'e) JSONHandler option"
  levelRenamer :: "(int \<Rightarrow> string) option"

text \<open>A call returns a value or panics.\<close>

datatype 'a outcome = Returned 'a | Panic

fun apply_Options :: "Option list \<Rightarrow> opts \<Rightarrow> opts" where
  "apply_Options [] o' = o'"
| "apply_Options (op # options) o' = apply_Options options (op o')"

text \<open>\<open>NewECSHandler\<close>; the writer \<open>os.Stdout\<close> is the parameter \<open>stdout\<close>.\<close>

definition NewECSHandler ::
  "('w \<Rightarrow> Json option \<Rightarrow> 'w \<times> 'e option) \<Rightarrow> Option list \<Rightarrow> ('w, 'e) ECSHandler" where
  "NewECSHandler stdout options =
     (let o' = apply_Options options defaultOptions;
          h = NewJSONHandler stdout \<lparr>opt_Level = opts_level o', ReplaceAttr = opts_replaceAttr o'\<rparr>
      in \<lparr>JSONHandler = Some h, levelRenamer = opts_levelRenamer o'\<rparr>)"

text \<open>
  \<open>Handle\<close> of package \<open>ecshandler\<close>: the attributes it builds, the record after
  \<open>r.AddAttrs(allAttributes...)\<close>, and the call of the JSON handler on it. The
  renamer is called while the attributes are built, and calling nil panics:
  \<open>allAttributes\<close> takes the renamer that is not nil. The call of \<open>Handle\<close> on
  a nil JSON handler panics too, before anything is written.
\<close>

definition allAttributes :: "(int \<Rightarrow> string) \<Rightarrow> Context \<Rightarrow> Record \<Rightarrow> Attr list" where
  "allAttributes levelRenamer' ctx r =
     (let labels = GetLabelAttrs ctx;
          plainAttributes = GetECSAttrs ctx;
          f = PC r
      in [slog_Time timestampKey (Time r),
          slog_String messageKey (Message r),
          slog_String logLevelKey (levelRenamer' (Level r)),
          slog_String ecsVersionKey ecsVersion,
          slog_String logLoggerKey logger,
          Attr labelsKey (GroupValue labels),
          slog_Group logOriginKey
            [slog_String fileNameKey (File f),
             slog_Int fileLineKey (Line f),
             slog_String functionKey (Function f)]]
         @ plainAttributes)"

definition ecs_record :: "(int \<Rightarrow> string) \<Rightarrow> Context \<Rightarrow> Record \<Rightarrow> Record" where
  "ecs_record levelRenamer' ctx r = AddAttrs r (allAttributes levelRenamer' ctx r)"

definition Handle ::
  "('w, 'e) ECSHandler \<Rightarrow> Context \<Rightarrow> Record \<Rightarrow> 'w \<Rightarrow> ('w \<times> 'e option) outcome" where
  "Handle h ctx r w =
     (case levelRenamer h of
        None \<Rightarrow> Panic
      | Some levelRenamer' \<Rightarrow>
          (case JSONHandler h of
             None \<Rightarrow> Panic
           | Some jh \<Rightarrow> Returned (JSONHandler_Handle jh ctx (ecs_record levelRenamer' ctx r) w)))"

text \<open>
  \<open>Handle\<close> of the older package \<open>log\<close>: one store, read with \<open>GetAttrsCtx\<close>, and
  no attributes after the group of the origin.
\<close>

definition log_attributes :: "(int \<Rightarrow> string) \<Rightarrow> Context \<Rightarrow> Record \<Rightarrow> Attr list" where
  "log_attributes levelRenamer' ctx r =
     (let attrs = GetAttrsCtx ctx;
          f = PC r
      in [slog_Time timestampKey (Time r),
          slog_String messageKey (Message r),
          slog_String logLevelKey (levelRenamer' (Level r)),
          slog_String ecsVersionKey ecsVersion,
          slog_String logLoggerKey logger,
          Attr labelsKey (GroupValue attrs),
          slog_Group logOriginKey
            [slog_String fileNameKey (File f),
             slog_Int fileLineKey (Line f),
             slog_String functionKey (Function f)]])"

definition log_record :: "(int \<Rightarrow> string) \<Rightarrow> Context \<Rightarrow> Record \<Rightarrow> Record" where
  "log_record levelRenamer' ctx r = AddAttrs r (log_attributes levelRenamer' ctx r)"

definition log_Handle ::
  "('w, 'e) ECSHandler \<Rightarrow> Context \<Rightarrow> Record \<Rightarrow> 'w \<Rightarrow> ('w \<times> 'e option) outcome" where
  "log_Handle h ctx r w =
     (case levelRenamer h of
        None \<Rightarrow> Panic
      | Some levelRenamer' \<Rightarrow>
          (case JSONHandler h of
             None \<Rightarrow> Panic
           | Some jh \<Rightarrow> Returned (JSONHandler_Handle jh ctx (log_record levelRenamer' ctx r) w)))"

text \<open>The level renamer of the package's test: \<open>"renamed_" + strings.ToLower(level.String())\<close>.\<close>

definition test_levelRenamer :: "int \<Rightarrow> string" where
  "test_levelRenamer level = ''renamed_'' @ ToLower (Level_String level)"

section \<open>Fixtures of the package tests\<close>

text \<open>
  The handler of \<open>TestECSHandler\<close>: a JSON handler without options that writes
  into a buffer (a write into a buffer returns no error), with the renamer of
  the test; its record; and a request with the header \<open>Authorization: abc\<close>
  for a middleware whose one ECS extractor renames that header.
\<close>

definition buffer_writer :: "Json option list \<Rightarrow> Json option \<Rightarrow> Json option list \<times> string option" where
  "buffer_writer buf line = (buf @ [line], None)"

definition test_JSONHandler :: "(Json option list, string) JSONHandler" where
  "test_JSONHandler = NewJSONHandler buffer_writer \<lparr>opt_Level = LevelInfo, ReplaceAttr = None\<rparr>"

definition test_handler :: "(Json option list, string) ECSHandler" where
  "test_handler = \<lparr>JSONHandler = Some test_JSONHandler, levelRenamer = Some test_levelRenamer\<rparr>"

definition test_record :: Record where
  "test_record =
     \<lparr>Time = 1, Message = ''Test message'', Level = LevelError,
      PC = \<lparr>File = ''handler_test.go'', Line = 38, Function = ''TestECSHandler''\<rparr>,
      record_attrs = [], back_written = False\<rparr>"

definition test_request :: Request where
  "test_request = \<lparr>Header = [''Authorization'' \<mapsto> [''abc'']], Method = ''GET'', Ctx = Background\<rparr>"

definition test_options :: middlewareOptions where
  "test_options =
     \<lparr>labelExtractors = [],
      ecsExtractors = [ExtractHeaderRename ''Authorization'' ''auth.token''],
      logRequest = True\<rparr>"

text \<open>A \<open>ReplaceAttr\<close> function that drops the attributes of one key and keeps the others.\<close>

definition dropKey :: "string \<Rightarrow> ReplaceAttrFn" where
  "dropKey key groups a = (if Key a = key then zeroAttr else a)"

section \<open>Slices and their arrays\<close>

text \<open>
  The stores above are lists: what the calls return when the slice a call is
  given is shared with nothing else (a slice built from the arguments of the
  call, or the slice the middleware builds for each request). In Go a slice is
  a view of an array: the address of the array, a length and a capacity.
  \<open>append\<close> writes into the array of its first argument when the capacity
  allows, and into a new array otherwise; \<open>AddLabelAttrs\<close> appends to the slice of
  its caller and stores the result, not a copy. Here the arrays are explicit:
  the heap maps an address to the cells of the array there and knows the next
  unused address.
\<close>

record Slice =
  array :: nat
  len :: nat
  cap :: nat

record Heap =
  arrays :: "nat \<Rightarrow> Attr list"
  free :: nat

definition nilSlice :: Slice where
  "nilSlice = \<lparr>array = 0, len = 0, cap = 0\<rparr>"

definition elements :: "Heap \<Rightarrow> Slice \<Rightarrow> Attr list" where
  "elements heap s = take (len s) (arrays heap (array s))"

text \<open>
  \<open>append(s, xs...)\<close>, with the elements \<open>xs\<close> read before anything is written.
  (A new array may be given more cells than are needed; those cells are not
  shown.)
\<close>

definition slice_append :: "Heap \<Rightarrow> Slice \<Rightarrow> Attr list \<Rightarrow> Slice \<times> Heap" where
  "slice_append heap s xs =
     (if len s + length xs \<le> cap s
      then (s\<lparr>len := len s + length xs\<rparr>,
            heap\<lparr>arrays := (arrays heap)
               (array s := take (len s) (arrays heap (array s)) @ xs
                           @ drop (len s + length xs) (arrays heap (array s)))\<rparr>)
      else (\<lparr>array = free heap, len = len s + length xs, cap = len s + length xs\<rparr>,
            heap\<lparr>arrays := (arrays heap)(free heap := elements heap s @ xs),
                 free := Suc (free heap)\<rparr>))"

text \<open>
  A new slice with the elements \<open>xs\<close> and \<open>spare\<close> cells of capacity beyond them:
  the slice of the arguments of a variadic call has none, a slice from
  \<open>make([]slog.Attr, n, n + spare)\<close> has some.
\<close>

definition make_slice :: "Heap \<Rightarrow> Attr list \<Rightarrow> nat \<Rightarrow> Slice \<times> Heap" where
  "make_slice heap xs spare =
     (\<lparr>array = free heap, len = length xs, cap = length xs + spare\<rparr>,
      heap\<lparr>arrays := (arrays heap)(free heap := xs @ replicate spare zeroAttr),
           free := Suc (free heap)\<rparr>)"

datatype sliceValue = SliceValue Slice | OtherSliceValue string

type_synonym SliceContext = "(ctxKey \<times> sliceValue) list"

definition GetLabelAttrs_slice :: "SliceContext \<Rightarrow> Slice" where
  "GetLabelAttrs_slice ctx =
     (case map_of ctx labelsAttributes of
        Some (SliceValue loadedAttrs) \<Rightarrow> loadedAttrs
      | Some (OtherSliceValue x) \<Rightarrow> nilSlice
      | None \<Rightarrow> nilSlice)"

definition AddLabelAttrs_slice :: "SliceContext \<Rightarrow> Slice \<Rightarrow> Heap \<Rightarrow> SliceContext \<times> Heap" where
  "AddLabelAttrs_slice ctx attrs heap =
     (case slice_append heap attrs (elements heap (GetLabelAttrs_slice ctx)) of
        (attrs', heap') \<Rightarrow> ((labelsAttributes, SliceValue attrs') # ctx, heap'))"

text \<open>
  A caller that keeps one slice with a spare cell and passes it to two calls:
  \<^verbatim>\<open>
  ctxA := AddLabelAttrs(context.Background(), slog.String("a", "1"))
  ctxB := AddLabelAttrs(context.Background(), slog.String("b", "2"))
  s := make([]slog.Attr, 1, 2); s[0] = slog.String("x", "0")
  ctx1 := AddLabelAttrs(ctxA, s...)
  ctx2 := AddLabelAttrs(ctxB, s...)
  \<close>
  The result is what \<open>GetLabelAttrs(ctx1)\<close> holds before the last call, what it
  holds after it, and what \<open>GetLabelAttrs(ctx2)\<close> holds.
\<close>

definition shared_slice_run :: "Attr list \<times> Attr list \<times> Attr list" where
  "shared_slice_run =
     (let heap0 = \<lparr>arrays = (\<lambda>a. []), free = 1\<rparr>;
          (va, heap1) = make_slice heap0 [slog_String ''a'' ''1''] 0;
          (ctxA, heap2) = AddLabelAttrs_slice [] va heap1;
          (vb, heap3) = make_slice heap2 [slog_String ''b'' ''2''] 0;
          (ctxB, heap4) = AddLabelAttrs_slice [] vb heap3;
          (s, heap5) = make_slice heap4 [slog_String ''x'' ''0''] 1;
          (ctx1, heap6) = AddLabelAttrs_slice ctxA s heap5;
          (ctx2, heap7) = AddLabelAttrs_slice ctxB s heap6
      in (elements heap6 (GetLabelAttrs_slice ctx1),
          elements heap7 (GetLabelAttrs_slice ctx1),
          elements heap7 (GetLabelAttrs_slice ctx2)))"

section \<open>Theorems\<close>

subsection \<open>Middleware chain\<close>

lemma ApplyMiddlewares_append:
  "ApplyMiddlewares base (ms @ ns) = ApplyMiddlewares (ApplyMiddlewares base ms) ns"
  by (induction ms arbitrary: base) simp_all

lemma ApplyMiddlewares_loggerMiddleware:
  "ApplyMiddlewares base (map loggerMiddleware ls) r out = base r (out @ rev ls)"
proof (induction ls arbitrary: out rule: rev_induct)
  case Nil
  show ?case by simp
next
  case (snoc l ls)
  have "ApplyMiddlewares base (map loggerMiddleware (ls @ [l])) r out
      = loggerMiddleware l (ApplyMiddlewares base (map loggerMiddleware ls)) r out"
    by (simp add: ApplyMiddlewares_append)
  also have "\<dots> = ApplyMiddlewares base (map loggerMiddleware ls) r (out @ [l])"
    by (simp add: loggerMiddleware_def)
  also have "\<dots> = base r (out @ rev (ls @ [l]))"
    by (simp add: snoc.IH)
  finally show ?case .
qed

text \<open>
  Claim C1. \<open>ApplyMiddlewares\<close> starts from the base handler and wraps the current
  handler with each middleware in list order: the empty list returns the base
  unchanged, and a list that ends with \<open>m\<close> returns \<open>m\<close> applied to the handler
  built from the middlewares before it, so the last middleware listed is the
  outermost one. On a request the outermost wrapper runs first: with the
  logger middlewares of the documentation comment, each prints its line exactly once,
  the last listed first, and the base handler runs after all of them.
\<close>

theorem ApplyMiddlewares_wraps_in_list_order:
  "ApplyMiddlewares base [] = base
   \<and> ApplyMiddlewares base (ms @ [m]) = m (ApplyMiddlewares base ms)
   \<and> ApplyMiddlewares base ms = foldl (\<lambda>current h. h current) base ms
   \<and> ApplyMiddlewares handler (map loggerMiddleware ls) r out = handler r (out @ rev ls)"
proof -
  have "ApplyMiddlewares base ms = foldl (\<lambda>current h. h current) base ms"
    by (induction ms arbitrary: base) simp_all
  then show ?thesis
    by (simp add: ApplyMiddlewares_append ApplyMiddlewares_loggerMiddleware)
qed

subsection \<open>Healthz status\<close>

lemma healthz_loop_status:
  "snd (fst (healthz_loop checks deps status s)) =
     (if False \<in> snd ` set (check_results checks s) then ''KO'' else status)"
proof (induction checks arbitrary: deps status s)
  case Nil
  show ?case by simp
next
  case (Cons dCheck checks)
  obtain d ok s' where c: "dCheck s = ((d, ok), s')"
    by (metis surj_pair)
  show ?case
    by (cases ok) (simp_all add: c Cons.IH)
qed

lemma healthz_loop_deps:
  "fst (fst (healthz_loop checks deps status s)) = deps @ map fst (check_results checks s)"
proof (induction checks arbitrary: deps status s)
  case Nil
  show ?case by simp
next
  case (Cons dCheck checks)
  obtain d ok s' where c: "dCheck s = ((d, ok), s')"
    by (metis surj_pair)
  show ?case
    by (simp add: c Cons.IH)
qed

text \<open>
  Claim C8. For every list of check functions the status of the response is
  \<open>KO\<close> when at least one check returned false and \<open>OK\<close> when every check
  returned true; the empty list gives \<open>OK\<close>. The dependencies of the response are
  those the checks returned, in order.
\<close>

theorem HealthzHandler_status:
  "Status (fst (HealthzHandler checks s)) =
     (if False \<in> snd ` set (check_results checks s) then ''KO'' else ''OK'')
   \<and> Dependencies (fst (HealthzHandler checks s)) = map fst (check_results checks s)
   \<and> Status (fst (HealthzHandler [] s)) = ''OK''"
proof -
  obtain deps status s' where l: "healthz_loop checks [] ''OK'' s = ((deps, status), s')"
    by (metis surj_pair)
  have st: "status = (if False \<in> snd ` set (check_results checks s) then ''KO'' else ''OK'')"
    using healthz_loop_status [of checks "[]" "''OK''" s] by (simp add: l)
  have ds: "deps = map fst (check_results checks s)"
    using healthz_loop_deps [of checks "[]" "''OK''" s] by (simp add: l)
  show ?thesis
    by (simp add: HealthzHandler_def l st ds)
qed

subsection \<open>The line of the JSON handler\<close>

lemma those_member:
  "those xs = Some ys \<Longrightarrow> Some ws \<in> set xs \<Longrightarrow> m \<in> set ws \<Longrightarrow> m \<in> set (concat ys)"
proof (induction xs arbitrary: ys)
  case Nil
  then show ?case by simp
next
  case (Cons x xs)
  then show ?case
    by (cases x; cases "those xs") auto
qed

lemma JSON_line_member:
  assumes "JSON_line opts r = Some (JObject ms)"
    and "a \<in> set (record_attrs r)"
    and "appendAttr (ReplaceAttr opts) [] a = Some ws"
    and "m \<in> set ws"
  shows "m \<in> set ms"
proof -
  let ?xs = "builtIns (ReplaceAttr opts) r @ map (appendAttr (ReplaceAttr opts) []) (record_attrs r)"
  obtain written where w: "those ?xs = Some written" and ms: "ms = concat written"
    using assms(1) by (auto simp: JSON_line_def split: option.splits)
  have "Some ws \<in> set ?xs"
    using assms(2,3) by force
  then show ?thesis
    using those_member [OF w _ assms(4)] ms by simp
qed

lemma appendAttr_kept_string:
  assumes "replaced rep groups (slog_String key v) = slog_String key v"
  shows "appendAttr rep groups (slog_String key v) = Some [(key, JString v)]"
  using assms by (simp add: slog_String_def emit_def isEmpty_def)

lemma JSON_line_kept_string:
  assumes "JSON_line opts r = Some line"
    and "slog_String key v \<in> set (record_attrs r)"
    and "replaced (ReplaceAttr opts) [] (slog_String key v) = slog_String key v"
  shows "\<exists>ms. line = JObject ms \<and> (key, JString v) \<in> set ms"
proof -
  obtain ms where ms: "line = JObject ms"
    using assms(1) by (auto simp: JSON_line_def split: option.splits)
  have "(key, JString v) \<in> set ms"
    using JSON_line_member [OF assms(1) [unfolded ms] assms(2) appendAttr_kept_string [OF assms(3)]]
    by simp
  with ms show ?thesis by simp
qed

subsection \<open>Attribute stores\<close>

lemma GetLabelAttrs_AddLabelAttrs:
  "GetLabelAttrs (AddLabelAttrs ctx attrs) = attrs @ GetLabelAttrs ctx"
  by (simp add: AddLabelAttrs_def WithValue_def GetLabelAttrs_def ctx_Value_def)

lemma GetECSAttrs_addECSAttrs:
  "GetECSAttrs (addECSAttrs ctx attrs) = attrs @ GetECSAttrs ctx"
  by (simp add: addECSAttrs_def WithValue_def GetECSAttrs_def ctx_Value_def)

lemma GetECSAttrs_AddLabelAttrs:
  "GetECSAttrs (AddLabelAttrs ctx attrs) = GetECSAttrs ctx"
  by (simp add: AddLabelAttrs_def WithValue_def GetECSAttrs_def ctx_Value_def)

lemma GetLabelAttrs_addECSAttrs:
  "GetLabelAttrs (addECSAttrs ctx attrs) = GetLabelAttrs ctx"
  by (simp add: addECSAttrs_def WithValue_def GetLabelAttrs_def ctx_Value_def)

lemma GetAttrsCtx_AddLabelAttrs:
  "GetAttrsCtx (AddLabelAttrs ctx attrs) = GetAttrsCtx ctx"
  by (simp add: AddLabelAttrs_def WithValue_def GetAttrsCtx_def ctx_Value_def)

lemma GetLabelAttrs_Background: "GetLabelAttrs Background = []"
  by (simp add: GetLabelAttrs_def ctx_Value_def Background_def)

lemma GetECSAttrs_Background: "GetECSAttrs Background = []"
  by (simp add: GetECSAttrs_def ctx_Value_def Background_def)

lemma GetLabelAttrs_foldl:
  "GetLabelAttrs (foldl AddLabelAttrs ctx further) = concat (rev further) @ GetLabelAttrs ctx"
  by (induction further arbitrary: ctx) (simp_all add: GetLabelAttrs_AddLabelAttrs)

lemma extract_loop_present:
  "extract_loop extractors r acc = acc @ map fst (filter snd (map (\<lambda>extract. extract r) extractors))"
proof (induction extractors arbitrary: acc)
  case Nil
  show ?case by simp
next
  case (Cons ex extractors)
  obtain attr ok where e: "ex r = (attr, ok)"
    by (cases "ex r")
  show ?case
    by (cases ok) (simp_all add: e Cons.IH)
qed

lemma GetECSAttrs_request_context:
  "GetECSAttrs (request_context options r) =
     map fst (filter snd (map (\<lambda>extract. extract r) (ecsExtractors options))) @ GetECSAttrs (Ctx r)"
  by (simp add: request_context_def Let_def GetECSAttrs_AddLabelAttrs GetECSAttrs_addECSAttrs
      extract_loop_present)

lemma GetLabelAttrs_request_context:
  "GetLabelAttrs (request_context options r) =
     map fst (filter snd (map (\<lambda>extract. extract r) (labelExtractors options))) @ GetLabelAttrs (Ctx r)"
  by (simp add: request_context_def Let_def GetLabelAttrs_AddLabelAttrs GetLabelAttrs_addECSAttrs
      extract_loop_present)

lemma no_present_result:
  "\<forall>extract \<in> set extractors. \<not> snd (extract r) \<Longrightarrow>
     filter snd (map (\<lambda>extract. extract r) extractors) = []"
  by (induction extractors) simp_all

text \<open>
  Claim C5, as amended. When no extractor of the middleware produces a present
  result for a request, the labels store and the ECS store of the context passed
  to the wrapped handler are those of the context the request came with: both
  getters return the empty list when that context holds no attributes, and the
  attributes an outer layer has stored otherwise.
\<close>

theorem stores_without_present_result:
  assumes "\<forall>extract \<in> set (ecsExtractors options). \<not> snd (extract r)"
    and "\<forall>extract \<in> set (labelExtractors options). \<not> snd (extract r)"
  shows "GetLabelAttrs (request_context options r) = GetLabelAttrs (Ctx r)
       \<and> GetECSAttrs (request_context options r) = GetECSAttrs (Ctx r)
       \<and> (GetLabelAttrs (Ctx r) = [] \<longrightarrow> GetLabelAttrs (request_context options r) = [])
       \<and> (GetECSAttrs (Ctx r) = [] \<longrightarrow> GetECSAttrs (request_context options r) = [])"
  by (simp add: GetLabelAttrs_request_context GetECSAttrs_request_context
      no_present_result [OF assms(1)] no_present_result [OF assms(2)])

lemma canonical_Authorization: "CanonicalMIMEHeaderKey ''Authorization'' = ''Authorization''"
  by (simp add: CanonicalMIMEHeaderKey_def validHeaderFieldByte_def canonical_byte_def
      is_upper_def is_lower_def is_digit_def)

theorem stores_without_present_result_witness:
  "GetLabelAttrs
     (request_context
        \<lparr>labelExtractors = [ExtractHeaderRename ''X-Request-Id'' ''request.id''],
         ecsExtractors = [ExtractHeaderRename ''Authorization'' ''auth.token''],
         logRequest = False\<rparr>
        \<lparr>Header = Map.empty, Method = ''GET'', Ctx = Background\<rparr>) = []
   \<and> GetECSAttrs
     (request_context
        \<lparr>labelExtractors = [ExtractHeaderRename ''X-Request-Id'' ''request.id''],
         ecsExtractors = [ExtractHeaderRename ''Authorization'' ''auth.token''],
         logRequest = False\<rparr>
        \<lparr>Header = Map.empty, Method = ''GET'', Ctx = Background\<rparr>) = []"
  using stores_without_present_result
    [of "\<lparr>labelExtractors = [ExtractHeaderRename ''X-Request-Id'' ''request.id''],
         ecsExtractors = [ExtractHeaderRename ''Authorization'' ''auth.token''],
         logRequest = False\<rparr>"
        "\<lparr>Header = Map.empty, Method = ''GET'', Ctx = Background\<rparr>"]
  by (simp add: ExtractHeaderRename_def Header_Get_def GetLabelAttrs_Background
      GetECSAttrs_Background)

text \<open>
  The claim as stated fails for a request whose context already holds a label
  (added by an outer layer or by \<open>AddLabelAttrs\<close>): the middleware has no
  extractor at all, and the labels store the wrapped handler reads is not empty.
\<close>

theorem stores_not_empty_counterexample:
  "GetLabelAttrs
     (request_context
        \<lparr>labelExtractors = [], ecsExtractors = [], logRequest = False\<rparr>
        \<lparr>Header = Map.empty, Method = ''GET'',
         Ctx = AddLabelAttrs Background [slog_String ''custom_key'' ''custom_value'']\<rparr>)
     = [slog_String ''custom_key'' ''custom_value'']
   \<and> GetLabelAttrs
     (request_context
        \<lparr>labelExtractors = [], ecsExtractors = [], logRequest = False\<rparr>
        \<lparr>Header = Map.empty, Method = ''GET'',
         Ctx = AddLabelAttrs Background [slog_String ''custom_key'' ''custom_value'']\<rparr>) \<noteq> []"
  by (simp add: GetLabelAttrs_request_context GetLabelAttrs_AddLabelAttrs GetLabelAttrs_Background)

subsection \<open>Stores on shared slices\<close>

text \<open>
  A slice without spare capacity is never written through: \<open>append\<close> on it
  leaves every array as it was, and \<open>AddLabelAttrs\<close> on it stores the new
  attributes in front of the stored ones, as the lists above do.
\<close>

lemma slice_append_no_spare:
  assumes "cap s = len s" and "len s \<le> length (arrays heap (array s))"
  shows "elements (snd (slice_append heap s xs)) (fst (slice_append heap s xs)) = elements heap s @ xs
       \<and> (array t < free heap \<longrightarrow> elements (snd (slice_append heap s xs)) t = elements heap t)"
proof (cases "xs = []")
  case True
  then show ?thesis
    using assms by (simp add: slice_append_def elements_def)
next
  case False
  then have "\<not> len s + length xs \<le> cap s"
    using assms(1) by simp
  then show ?thesis
    using assms(2) by (simp add: slice_append_def elements_def)
qed

lemma GetLabelAttrs_slice_latest:
  "GetLabelAttrs_slice ((labelsAttributes, SliceValue s) # ctx) = s"
  by (simp add: GetLabelAttrs_slice_def)

lemma AddLabelAttrs_slice_no_spare:
  assumes "cap attrs = len attrs" and "len attrs \<le> length (arrays heap (array attrs))"
  shows "elements (snd (AddLabelAttrs_slice ctx attrs heap))
           (GetLabelAttrs_slice (fst (AddLabelAttrs_slice ctx attrs heap)))
         = elements heap attrs @ elements heap (GetLabelAttrs_slice ctx)
       \<and> (array t < free heap \<longrightarrow>
           elements (snd (AddLabelAttrs_slice ctx attrs heap)) t = elements heap t)"
proof -
  let ?xs = "elements heap (GetLabelAttrs_slice ctx)"
  obtain attrs' heap' where a: "slice_append heap attrs ?xs = (attrs', heap')"
    by (cases "slice_append heap attrs ?xs")
  have "elements heap' attrs' = elements heap attrs @ ?xs
      \<and> (array t < free heap \<longrightarrow> elements heap' t = elements heap t)"
    using slice_append_no_spare [OF assms, of ?xs t] by (simp add: a)
  then show ?thesis
    by (simp add: AddLabelAttrs_slice_def a GetLabelAttrs_slice_latest)
qed

text \<open>
  Claim C3. An attribute added with \<open>AddLabelAttrs\<close> is to stay in the store of
  the resulting context, and adding is never to remove what a store holds. The
  code appends the stored attributes to the slice of its caller and stores the
  result without copying it, so this fails when that slice has spare capacity
  and is passed to a second call: in the run \<open>shared_slice_run\<close> the store of
  \<open>ctx1\<close> holds \<open>x=0, a=1\<close> after the call that made it and \<open>x=0, b=2\<close> after
  the next call. The attribute \<open>a=1\<close> is gone from it.
\<close>

theorem AddLabelAttrs_shared_slice_overwritten:
  "shared_slice_run =
     ([slog_String ''x'' ''0'', slog_String ''a'' ''1''],
      [slog_String ''x'' ''0'', slog_String ''b'' ''2''],
      [slog_String ''x'' ''0'', slog_String ''b'' ''2''])
   \<and> slog_String ''a'' ''1'' \<in> set (fst shared_slice_run)
   \<and> slog_String ''a'' ''1'' \<notin> set (fst (snd shared_slice_run))"
proof -
  have run: "shared_slice_run =
     ([slog_String ''x'' ''0'', slog_String ''a'' ''1''],
      [slog_String ''x'' ''0'', slog_String ''b'' ''2''],
      [slog_String ''x'' ''0'', slog_String ''b'' ''2''])"
    by (simp add: shared_slice_run_def make_slice_def AddLabelAttrs_slice_def slice_append_def
        GetLabelAttrs_slice_def elements_def nilSlice_def)
  show ?thesis
    by (simp add: run slog_String_def)
qed

subsection \<open>The record the ECS handler passes on\<close>

lemma set_AddAttrs:
  "set (record_attrs (AddAttrs r as))
     = set (record_attrs r) \<union> set (dropEmptyGroups as)
       \<union> (if back_written r then {bugAttr} else {})"
proof -
  let ?room = "nAttrsInline - length (record_attrs r)"
  have "set (take ?room (dropEmptyGroups as)) \<union> set (drop ?room (dropEmptyGroups as))
      = set (dropEmptyGroups as)"
    by (metis append_take_drop_id set_append)
  then show ?thesis
    by (auto simp: AddAttrs_def Let_def)
qed

lemma filter_AddAttrs:
  assumes "key \<noteq> ''!BUG''"
  shows "filter (\<lambda>a. Key a = key) (record_attrs (AddAttrs r as))
       = filter (\<lambda>a. Key a = key) (record_attrs r)
         @ filter (\<lambda>a. Key a = key) (dropEmptyGroups as)"
proof -
  let ?room = "nAttrsInline - length (record_attrs r)"
  let ?P = "\<lambda>a. Key a = key"
  have "filter ?P (take ?room (dropEmptyGroups as)) @ filter ?P (drop ?room (dropEmptyGroups as))
      = filter ?P (dropEmptyGroups as)"
    by (metis append_take_drop_id filter_append)
  moreover have "Key bugAttr \<noteq> key"
    using assms by (auto simp: bugAttr_def slog_String_def)
  ultimately show ?thesis
    by (simp add: AddAttrs_def Let_def)
qed

lemma dropEmptyGroups_string:
  "slog_String key v \<in> set as \<Longrightarrow> slog_String key v \<in> set (dropEmptyGroups as)"
  by (simp add: dropEmptyGroups_def slog_String_def)

lemma fixed_in_allAttributes:
  "slog_String logLevelKey (f (Level r)) \<in> set (allAttributes f ctx r)"
  "slog_String ecsVersionKey ecsVersion \<in> set (allAttributes f ctx r)"
  "slog_String logLoggerKey logger \<in> set (allAttributes f ctx r)"
  "set (GetECSAttrs ctx) \<subseteq> set (allAttributes f ctx r)"
  by (auto simp: allAttributes_def Let_def)

lemma fixed_in_log_attributes:
  "slog_String logLevelKey (f (Level r)) \<in> set (log_attributes f ctx r)"
  "slog_String ecsVersionKey ecsVersion \<in> set (log_attributes f ctx r)"
  "slog_String logLoggerKey logger \<in> set (log_attributes f ctx r)"
  by (simp_all add: log_attributes_def Let_def)

lemma string_in_ecs_record:
  "slog_String key v \<in> set (allAttributes f ctx r) \<Longrightarrow>
     slog_String key v \<in> set (record_attrs (ecs_record f ctx r))"
  by (simp add: ecs_record_def set_AddAttrs dropEmptyGroups_string)

lemma string_in_log_record:
  "slog_String key v \<in> set (log_attributes f ctx r) \<Longrightarrow>
     slog_String key v \<in> set (record_attrs (log_record f ctx r))"
  by (simp add: log_record_def set_AddAttrs dropEmptyGroups_string)

lemma Handle_Returned:
  assumes "levelRenamer h = Some f" and "JSONHandler h = Some jh"
  shows "Handle h ctx r w = Returned (JSONHandler_Handle jh ctx (ecs_record f ctx r) w)"
    and "log_Handle h ctx r w = Returned (JSONHandler_Handle jh ctx (log_record f ctx r) w)"
  using assms by (simp_all add: Handle_def log_Handle_def)

lemma version_in_ecs_record:
  "slog_String ''ecs.version'' ''8.11.0'' \<in> set (record_attrs (ecs_record f ctx r))"
  using string_in_ecs_record [OF fixed_in_allAttributes(2), of f ctx r]
  by (simp add: ecsVersionKey_def ecsVersion_def)

lemma logger_in_ecs_record:
  "slog_String ''log.logger'' ''log/slog'' \<in> set (record_attrs (ecs_record f ctx r))"
  using string_in_ecs_record [OF fixed_in_allAttributes(3), of f ctx r]
  by (simp add: logLoggerKey_def logger_def)

lemma version_in_log_record:
  "slog_String ''ecs.version'' ''8.11.0'' \<in> set (record_attrs (log_record f ctx r))"
  using string_in_log_record [OF fixed_in_log_attributes(2), of f ctx r]
  by (simp add: ecsVersionKey_def ecsVersion_def)

lemma logger_in_log_record:
  "slog_String ''log.logger'' ''log/slog'' \<in> set (record_attrs (log_record f ctx r))"
  using string_in_log_record [OF fixed_in_log_attributes(3), of f ctx r]
  by (simp add: logLoggerKey_def logger_def)

lemma JSON_line_two_strings:
  assumes "replaced (ReplaceAttr opts) [] (slog_String k1 v1) = slog_String k1 v1"
    and "replaced (ReplaceAttr opts) [] (slog_String k2 v2) = slog_String k2 v2"
    and "slog_String k1 v1 \<in> set (record_attrs r)"
    and "slog_String k2 v2 \<in> set (record_attrs r)"
  shows "\<forall>line. JSON_line opts r = Some line \<longrightarrow>
           (\<exists>ms. line = JObject ms \<and> (k1, JString v1) \<in> set ms \<and> (k2, JString v2) \<in> set ms)"
proof (intro allI impI)
  fix line
  assume l: "JSON_line opts r = Some line"
  obtain ms where ms: "line = JObject ms" and m1: "(k1, JString v1) \<in> set ms"
    using JSON_line_kept_string [OF l assms(3) assms(1)] by auto
  obtain ms' where ms': "line = JObject ms'" and m2: "(k2, JString v2) \<in> set ms'"
    using JSON_line_kept_string [OF l assms(4) assms(2)] by auto
  from ms ms' have "ms' = ms" by simp
  with ms m1 m2 show "\<exists>ms. line = JObject ms \<and> (k1, JString v1) \<in> set ms \<and> (k2, JString v2) \<in> set ms"
    by simp
qed

text \<open>
  Claim C4, as amended. When the level renamer and the JSON handler are not nil,
  \<open>Handle\<close> passes a record to the JSON handler, and that record carries the
  attributes \<open>ecs.version\<close> = \<open>8.11.0\<close> and \<open>log.logger\<close> = \<open>log/slog\<close> whatever
  the record and the stores of the context hold, in both versions of the
  handler. The line the JSON handler writes has them as top-level members when
  its \<open>ReplaceAttr\<close> leaves these two attributes as they are (as the default
  one does, and as none does) and the line is a well-formed object.
\<close>

theorem fixed_keys_in_output:
  assumes "levelRenamer h = Some f" and "JSONHandler h = Some jh"
  shows "Handle h ctx r w = Returned (JSONHandler_Handle jh ctx (ecs_record f ctx r) w)
       \<and> log_Handle h ctx r w = Returned (JSONHandler_Handle jh ctx (log_record f ctx r) w)
       \<and> slog_String ''ecs.version'' ''8.11.0'' \<in> set (record_attrs (ecs_record f ctx r))
       \<and> slog_String ''log.logger'' ''log/slog'' \<in> set (record_attrs (ecs_record f ctx r))
       \<and> slog_String ''ecs.version'' ''8.11.0'' \<in> set (record_attrs (log_record f ctx r))
       \<and> slog_String ''log.logger'' ''log/slog'' \<in> set (record_attrs (log_record f ctx r))
       \<and> (replaced (ReplaceAttr (handler_opts jh)) [] (slog_String ''ecs.version'' ''8.11.0'')
             = slog_String ''ecs.version'' ''8.11.0''
          \<and> replaced (ReplaceAttr (handler_opts jh)) [] (slog_String ''log.logger'' ''log/slog'')
             = slog_String ''log.logger'' ''log/slog'' \<longrightarrow>
            (\<forall>line. JSON_line (handler_opts jh) (ecs_record f ctx r) = Some line \<longrightarrow>
               (\<exists>ms. line = JObject ms
                    \<and> (''ecs.version'', JString ''8.11.0'') \<in> set ms
                    \<and> (''log.logger'', JString ''log/slog'') \<in> set ms))
          \<and> (\<forall>line. JSON_line (handler_opts jh) (log_record f ctx r) = Some line \<longrightarrow>
               (\<exists>ms. line = JObject ms
                    \<and> (''ecs.version'', JString ''8.11.0'') \<in> set ms
                    \<and> (''log.logger'', JString ''log/slog'') \<in> set ms)))"
proof (intro conjI impI)
  show "Handle h ctx r w = Returned (JSONHandler_Handle jh ctx (ecs_record f ctx r) w)"
    by (rule Handle_Returned(1) [OF assms])
  show "log_Handle h ctx r w = Returned (JSONHandler_Handle jh ctx (log_record f ctx r) w)"
    by (rule Handle_Returned(2) [OF assms])
  show "slog_String ''ecs.version'' ''8.11.0'' \<in> set (record_attrs (ecs_record f ctx r))"
    by (rule version_in_ecs_record)
  show "slog_String ''log.logger'' ''log/slog'' \<in> set (record_attrs (ecs_record f ctx r))"
    by (rule logger_in_ecs_record)
  show "slog_String ''ecs.version'' ''8.11.0'' \<in> set (record_attrs (log_record f ctx r))"
    by (rule version_in_log_record)
  show "slog_String ''log.logger'' ''log/slog'' \<in> set (record_attrs (log_record f ctx r))"
    by (rule logger_in_log_record)
next
  assume kept: "replaced (ReplaceAttr (handler_opts jh)) [] (slog_String ''ecs.version'' ''8.11.0'')
             = slog_String ''ecs.version'' ''8.11.0''
          \<and> replaced (ReplaceAttr (handler_opts jh)) [] (slog_String ''log.logger'' ''log/slog'')
             = slog_String ''log.logger'' ''log/slog''"
  show "\<forall>line. JSON_line (handler_opts jh) (ecs_record f ctx r) = Some line \<longrightarrow>
               (\<exists>ms. line = JObject ms
                    \<and> (''ecs.version'', JString ''8.11.0'') \<in> set ms
                    \<and> (''log.logger'', JString ''log/slog'') \<in> set ms)"
    by (rule JSON_line_two_strings [OF kept [THEN conjunct1] kept [THEN conjunct2]
          version_in_ecs_record logger_in_ecs_record])
next
  assume kept: "replaced (ReplaceAttr (handler_opts jh)) [] (slog_String ''ecs.version'' ''8.11.0'')
             = slog_String ''ecs.version'' ''8.11.0''
          \<and> replaced (ReplaceAttr (handler_opts jh)) [] (slog_String ''log.logger'' ''log/slog'')
             = slog_String ''log.logger'' ''log/slog''"
  show "\<forall>line. JSON_line (handler_opts jh) (log_record f ctx r) = Some line \<longrightarrow>
               (\<exists>ms. line = JObject ms
                    \<and> (''ecs.version'', JString ''8.11.0'') \<in> set ms
                    \<and> (''log.logger'', JString ''log/slog'') \<in> set ms)"
    by (rule JSON_line_two_strings [OF kept [THEN conjunct1] kept [THEN conjunct2]
          version_in_log_record logger_in_log_record])
qed

lemma default_handler_fields:
  "levelRenamer (NewECSHandler stdout []) = Some Level_String"
  "JSONHandler (NewECSHandler stdout [])
     = Some (NewJSONHandler stdout \<lparr>opt_Level = LevelDebug, ReplaceAttr = Some defaultReplaceAttr\<rparr>)"
  by (simp_all add: NewECSHandler_def defaultOptions_def)

lemma test_line_default:
  "JSON_line \<lparr>opt_Level = LevelDebug, ReplaceAttr = Some defaultReplaceAttr\<rparr>
     (ecs_record Level_String
        (AddLabelAttrs Background [slog_String ''custom_key'' ''custom_value'']) test_record)
   = Some (JObject
       [(''@timestamp'', JTime 1), (''message'', JString ''Test message''),
        (''log.level'', JString ''ERROR''), (''ecs.version'', JString ''8.11.0''),
        (''log.logger'', JString ''log/slog''),
        (''labels'', JObject [(''custom_key'', JString ''custom_value'')]),
        (''log.origin'', JObject [(''file.name'', JString ''handler_test.go''), (''file.line'', JNumber 38), (''function'', JString ''TestECSHandler'')])])"
  by code_simp

theorem fixed_keys_in_output_witness:
  "levelRenamer (NewECSHandler buffer_writer []) = Some Level_String
   \<and> replaced (Some defaultReplaceAttr) [] (slog_String ''ecs.version'' ''8.11.0'')
       = slog_String ''ecs.version'' ''8.11.0''
   \<and> replaced (Some defaultReplaceAttr) [] (slog_String ''log.logger'' ''log/slog'')
       = slog_String ''log.logger'' ''log/slog''
   \<and> (\<exists>ms. JSON_line \<lparr>opt_Level = LevelDebug, ReplaceAttr = Some defaultReplaceAttr\<rparr>
              (ecs_record Level_String
                 (AddLabelAttrs Background [slog_String ''custom_key'' ''custom_value''])
                 test_record) = Some (JObject ms)
          \<and> (''ecs.version'', JString ''8.11.0'') \<in> set ms
          \<and> (''log.logger'', JString ''log/slog'') \<in> set ms)"
proof -
  let ?opts = "\<lparr>opt_Level = LevelDebug, ReplaceAttr = Some defaultReplaceAttr\<rparr>"
  let ?ctx = "AddLabelAttrs Background [slog_String ''custom_key'' ''custom_value'']"
  have v: "replaced (Some defaultReplaceAttr) [] (slog_String ''ecs.version'' ''8.11.0'')
       = slog_String ''ecs.version'' ''8.11.0''"
    by (simp add: replaced_def defaultReplaceAttr_def slog_String_def)
  have l: "replaced (Some defaultReplaceAttr) [] (slog_String ''log.logger'' ''log/slog'')
       = slog_String ''log.logger'' ''log/slog''"
    by (simp add: replaced_def defaultReplaceAttr_def slog_String_def)
  have o: "handler_opts (NewJSONHandler buffer_writer ?opts) = ?opts"
    by (simp add: NewJSONHandler_def)
  have kept: "replaced (ReplaceAttr (handler_opts (NewJSONHandler buffer_writer ?opts))) []
                (slog_String ''ecs.version'' ''8.11.0'') = slog_String ''ecs.version'' ''8.11.0''
            \<and> replaced (ReplaceAttr (handler_opts (NewJSONHandler buffer_writer ?opts))) []
                (slog_String ''log.logger'' ''log/slog'') = slog_String ''log.logger'' ''log/slog''"
    using v l by (simp add: o)
  note t = fixed_keys_in_output [OF default_handler_fields, of buffer_writer ?ctx test_record "[]",
      THEN conjunct2, THEN conjunct2, THEN conjunct2, THEN conjunct2, THEN conjunct2,
      THEN conjunct2, THEN mp, OF kept, THEN conjunct1, THEN spec, THEN mp]
  have "\<exists>ms. JObject [(''@timestamp'', JTime 1), (''message'', JString ''Test message''),
        (''log.level'', JString ''ERROR''), (''ecs.version'', JString ''8.11.0''),
        (''log.logger'', JString ''log/slog''),
        (''labels'', JObject [(''custom_key'', JString ''custom_value'')]),
        (''log.origin'', JObject [(''file.name'', JString ''handler_test.go''), (''file.line'', JNumber 38), (''function'', JString ''TestECSHandler'')])] = JObject ms
          \<and> (''ecs.version'', JString ''8.11.0'') \<in> set ms
          \<and> (''log.logger'', JString ''log/slog'') \<in> set ms"
    by (rule t) (simp only: o test_line_default)
  then have "\<exists>ms. JSON_line ?opts (ecs_record Level_String ?ctx test_record) = Some (JObject ms)
          \<and> (''ecs.version'', JString ''8.11.0'') \<in> set ms
          \<and> (''log.logger'', JString ''log/slog'') \<in> set ms"
    by (simp only: test_line_default) simp
  then show ?thesis
    using default_handler_fields(1) [of buffer_writer] v l by (intro conjI)
qed

text \<open>
  The claim as stated fails for a handler configured with \<open>WithReplaceAttr\<close>:
  with a function that drops the attributes of the key \<open>ecs.version\<close>, the line
  written for the record of the test has no such key.
\<close>

theorem fixed_keys_dropped_counterexample:
  "Handle (NewECSHandler buffer_writer [WithReplaceAttr (Some (dropKey ''ecs.version''))])
     Background test_record []
   = Returned ([Some (JObject
       [(''time'', JTime 1), (''level'', JString ''ERROR''), (''msg'', JString ''Test message''),
        (''@timestamp'', JTime 1), (''message'', JString ''Test message''),
        (''log.level'', JString ''ERROR''), (''log.logger'', JString ''log/slog''),
        (''log.origin'', JObject [(''file.name'', JString ''handler_test.go''), (''file.line'', JNumber 38), (''function'', JString ''TestECSHandler'')])])], None)
   \<and> (''ecs.version'', JString ''8.11.0'') \<notin> set
       [(''time'', JTime 1), (''level'', JString ''ERROR''), (''msg'', JString ''Test message''),
        (''@timestamp'', JTime 1), (''message'', JString ''Test message''),
        (''log.level'', JString ''ERROR''), (''log.logger'', JString ''log/slog''),
        (''log.origin'', JObject [(''file.name'', JString ''handler_test.go''), (''file.line'', JNumber 38), (''function'', JString ''TestECSHandler'')])]"
proof -
  have "Handle (NewECSHandler buffer_writer [WithReplaceAttr (Some (dropKey ''ecs.version''))])
     Background test_record []
   = Returned ([Some (JObject
       [(''time'', JTime 1), (''level'', JString ''ERROR''), (''msg'', JString ''Test message''),
        (''@timestamp'', JTime 1), (''message'', JString ''Test message''),
        (''log.level'', JString ''ERROR''), (''log.logger'', JString ''log/slog''),
        (''log.origin'', JObject [(''file.name'', JString ''handler_test.go''), (''file.line'', JNumber 38), (''function'', JString ''TestECSHandler'')])])], None)"
    by code_simp
  then show ?thesis by simp
qed

subsection \<open>From the header to the line\<close>

lemma present_in_ecs_store:
  assumes "ex \<in> set (ecsExtractors options)" and "ex r = (a, True)"
  shows "a \<in> set (GetECSAttrs (request_context options r))"
proof -
  let ?results = "map (\<lambda>e. e r) (ecsExtractors options)"
  have "ex r \<in> (\<lambda>e. e r) ` set (ecsExtractors options)"
    using assms(1) by (rule imageI)
  then have "(a, True) \<in> set ?results"
    by (simp add: assms(2))
  then have "(a, True) \<in> set (filter snd ?results)"
    by simp
  then have "fst (a, True) \<in> fst ` set (filter snd ?results)"
    by (rule imageI)
  then have "a \<in> set (map fst (filter snd ?results))"
    by simp
  then show ?thesis
    by (simp add: GetECSAttrs_request_context)
qed

lemma attributes_handler_unfold:
  "attributes_handler options wrapped r w =
     (if logRequest options
      then slog_InfoContext (request_context options r) ''HTTP Request handled''
             (wrapped (r\<lparr>Ctx := request_context options r\<rparr>) w)
      else wrapped (r\<lparr>Ctx := request_context options r\<rparr>) w)"
  by (simp add: attributes_handler_def Let_def)

text \<open>
  Claim C2, as amended. A request carries the header \<open>Authorization: abc\<close>, and
  \<open>ExtractHeaderRename "Authorization" "auth.token"\<close> is among the ECS extractors
  of the middleware. The middleware calls the wrapped handler with the context
  it builds, whose ECS store holds the attribute \<open>auth.token\<close> = \<open>abc\<close>. A
  record handled under that context by a handler whose level renamer and JSON
  handler are not nil is passed on with that attribute as an attribute of its
  own, not inside a group. The line written has the top-level member
  \<open>auth.token\<close> with the value \<open>abc\<close> when the \<open>ReplaceAttr\<close> of the JSON handler
  leaves that attribute as it is and the line is a well-formed object.
\<close>

theorem header_attribute_in_output:
  assumes "Header r ''Authorization'' = Some (''abc'' # vs)"
    and "ExtractHeaderRename ''Authorization'' ''auth.token'' \<in> set (ecsExtractors options)"
    and "levelRenamer h = Some f" and "JSONHandler h = Some jh"
  shows "attributes_handler options wrapped r w0 =
           (if logRequest options
            then slog_InfoContext (request_context options r) ''HTTP Request handled''
                   (wrapped (r\<lparr>Ctx := request_context options r\<rparr>) w0)
            else wrapped (r\<lparr>Ctx := request_context options r\<rparr>) w0)
       \<and> slog_String ''auth.token'' ''abc'' \<in> set (GetECSAttrs (request_context options r))
       \<and> Handle h (request_context options r) lr w
           = Returned (JSONHandler_Handle jh (request_context options r)
                         (ecs_record f (request_context options r) lr) w)
       \<and> slog_String ''auth.token'' ''abc''
           \<in> set (record_attrs (ecs_record f (request_context options r) lr))
       \<and> (replaced (ReplaceAttr (handler_opts jh)) [] (slog_String ''auth.token'' ''abc'')
             = slog_String ''auth.token'' ''abc'' \<longrightarrow>
          (\<forall>line. JSON_line (handler_opts jh) (ecs_record f (request_context options r) lr)
                     = Some line \<longrightarrow>
             (\<exists>ms. line = JObject ms \<and> (''auth.token'', JString ''abc'') \<in> set ms)))"
proof -
  let ?ctx = "request_context options r"
  have e: "ExtractHeaderRename ''Authorization'' ''auth.token'' r = (slog_String ''auth.token'' ''abc'', True)"
    using assms(1) by (simp add: ExtractHeaderRename_def Header_Get_def canonical_Authorization)
  have s: "slog_String ''auth.token'' ''abc'' \<in> set (GetECSAttrs ?ctx)"
    using assms(2) e by (rule present_in_ecs_store)
  then have "slog_String ''auth.token'' ''abc'' \<in> set (allAttributes f ?ctx lr)"
    using fixed_in_allAttributes(4) [of ?ctx f lr] by (rule rev_subsetD)
  then have a: "slog_String ''auth.token'' ''abc'' \<in> set (record_attrs (ecs_record f ?ctx lr))"
    by (rule string_in_ecs_record)
  have j: "\<forall>line. JSON_line (handler_opts jh) (ecs_record f ?ctx lr) = Some line \<longrightarrow>
             (\<exists>ms. line = JObject ms \<and> (''auth.token'', JString ''abc'') \<in> set ms)"
    if kept: "replaced (ReplaceAttr (handler_opts jh)) [] (slog_String ''auth.token'' ''abc'')
             = slog_String ''auth.token'' ''abc''"
  proof (intro allI impI)
    fix line
    assume "JSON_line (handler_opts jh) (ecs_record f ?ctx lr) = Some line"
    then show "\<exists>ms. line = JObject ms \<and> (''auth.token'', JString ''abc'') \<in> set ms"
      using a kept by (rule JSON_line_kept_string)
  qed
  show ?thesis
    using attributes_handler_unfold [of options wrapped r w0] s
      Handle_Returned(1) [OF assms(3,4), of ?ctx lr w] a j
    by (intro conjI impI)
qed

lemma test_line_header:
  "JSON_line (handler_opts test_JSONHandler)
     (ecs_record test_levelRenamer (request_context test_options test_request) test_record)
   = Some (JObject
       [(''time'', JTime 1), (''level'', JString ''ERROR''), (''msg'', JString ''Test message''),
        (''@timestamp'', JTime 1), (''message'', JString ''Test message''),
        (''log.level'', JString ''renamed_error''), (''ecs.version'', JString ''8.11.0''),
        (''log.logger'', JString ''log/slog''),
        (''log.origin'', JObject [(''file.name'', JString ''handler_test.go''), (''file.line'', JNumber 38), (''function'', JString ''TestECSHandler'')]),
        (''auth.token'', JString ''abc'')])"
  by code_simp

theorem header_attribute_in_output_witness:
  "Header test_request ''Authorization'' = Some [''abc'']
   \<and> ExtractHeaderRename ''Authorization'' ''auth.token'' \<in> set (ecsExtractors test_options)
   \<and> levelRenamer test_handler = Some test_levelRenamer
   \<and> JSONHandler test_handler = Some test_JSONHandler
   \<and> replaced (ReplaceAttr (handler_opts test_JSONHandler)) [] (slog_String ''auth.token'' ''abc'')
       = slog_String ''auth.token'' ''abc''
   \<and> (\<exists>ms. JSON_line (handler_opts test_JSONHandler)
              (ecs_record test_levelRenamer (request_context test_options test_request) test_record)
            = Some (JObject ms)
          \<and> (''auth.token'', JString ''abc'') \<in> set ms)"
proof -
  have hdr: "Header test_request ''Authorization'' = Some [''abc'']"
    by (simp add: test_request_def)
  have ex: "ExtractHeaderRename ''Authorization'' ''auth.token'' \<in> set (ecsExtractors test_options)"
    by (simp add: test_options_def)
  have lr: "levelRenamer test_handler = Some test_levelRenamer"
    by (simp add: test_handler_def)
  have jh: "JSONHandler test_handler = Some test_JSONHandler"
    by (simp add: test_handler_def)
  have kept: "replaced (ReplaceAttr (handler_opts test_JSONHandler)) [] (slog_String ''auth.token'' ''abc'')
       = slog_String ''auth.token'' ''abc''"
    by (simp add: test_JSONHandler_def NewJSONHandler_def replaced_def)
  note t = header_attribute_in_output [OF hdr ex lr jh, of _ _ test_record "[]",
      THEN conjunct2, THEN conjunct2, THEN conjunct2, THEN conjunct2,
      THEN mp, OF kept, THEN spec, THEN mp, OF test_line_header]
  have "\<exists>ms. JSON_line (handler_opts test_JSONHandler)
              (ecs_record test_levelRenamer (request_context test_options test_request) test_record)
            = Some (JObject ms)
          \<and> (''auth.token'', JString ''abc'') \<in> set ms"
    using t by (simp only: test_line_header) simp
  then show ?thesis
    using hdr ex lr jh kept by (intro conjI)
qed

text \<open>
  The claim as stated fails for a handler configured with \<open>WithReplaceAttr\<close>:
  with a function that drops the attributes of the key \<open>auth.token\<close>, the line
  written under the context of the request has no such key.
\<close>

theorem header_attribute_dropped_counterexample:
  "Header test_request ''Authorization'' = Some [''abc'']
   \<and> ExtractHeaderRename ''Authorization'' ''auth.token'' \<in> set (ecsExtractors test_options)
   \<and> Handle (NewECSHandler buffer_writer [WithReplaceAttr (Some (dropKey ''auth.token''))])
       (request_context test_options test_request) test_record []
     = Returned ([Some (JObject
       [(''time'', JTime 1), (''level'', JString ''ERROR''), (''msg'', JString ''Test message''),
        (''@timestamp'', JTime 1), (''message'', JString ''Test message''),
        (''log.level'', JString ''ERROR''), (''ecs.version'', JString ''8.11.0''),
        (''log.logger'', JString ''log/slog''),
        (''log.origin'', JObject [(''file.name'', JString ''handler_test.go''), (''file.line'', JNumber 38), (''function'', JString ''TestECSHandler'')])])], None)
   \<and> (''auth.token'', JString ''abc'') \<notin> set
       [(''time'', JTime 1), (''level'', JString ''ERROR''), (''msg'', JString ''Test message''),
        (''@timestamp'', JTime 1), (''message'', JString ''Test message''),
        (''log.level'', JString ''ERROR''), (''ecs.version'', JString ''8.11.0''),
        (''log.logger'', JString ''log/slog''),
        (''log.origin'', JObject [(''file.name'', JString ''handler_test.go''), (''file.line'', JNumber 38), (''function'', JString ''TestECSHandler'')])]"
proof -
  have hdr: "Header test_request ''Authorization'' = Some [''abc'']"
    by (simp add: test_request_def)
  have ex: "ExtractHeaderRename ''Authorization'' ''auth.token'' \<in> set (ecsExtractors test_options)"
    by (simp add: test_options_def)
  have run: "Handle (NewECSHandler buffer_writer [WithReplaceAttr (Some (dropKey ''auth.token''))])
       (request_context test_options test_request) test_record []
     = Returned ([Some (JObject
       [(''time'', JTime 1), (''level'', JString ''ERROR''), (''msg'', JString ''Test message''),
        (''@timestamp'', JTime 1), (''message'', JString ''Test message''),
        (''log.level'', JString ''ERROR''), (''ecs.version'', JString ''8.11.0''),
        (''log.logger'', JString ''log/slog''),
        (''log.origin'', JObject [(''file.name'', JString ''handler_test.go''), (''file.line'', JNumber 38), (''function'', JString ''TestECSHandler'')])])], None)"
    by code_simp
  show ?thesis
    using hdr ex run by simp
qed

subsection \<open>Level, errors, order and empty headers\<close>

lemma test_levelRenamer_error: "test_levelRenamer LevelError = ''renamed_error''"
  by code_simp

lemma log_level_attrs_log:
  "filter (\<lambda>a. Key a = logLevelKey) (log_attributes f ctx r)
     = [slog_String logLevelKey (f (Level r))]"
  by (simp add: log_attributes_def Let_def slog_String_def slog_Time_def slog_Group_def
      timestampKey_def messageKey_def logLevelKey_def ecsVersionKey_def logLoggerKey_def
      labelsKey_def logOriginKey_def)

lemma log_level_attrs_ecs:
  "filter (\<lambda>a. Key a = logLevelKey) (allAttributes f ctx r)
     = slog_String logLevelKey (f (Level r))
       # filter (\<lambda>a. Key a = logLevelKey) (GetECSAttrs ctx)"
  by (simp add: allAttributes_def Let_def slog_String_def slog_Time_def slog_Group_def
      timestampKey_def messageKey_def logLevelKey_def ecsVersionKey_def logLoggerKey_def
      labelsKey_def logOriginKey_def)

lemma filter_dropEmptyGroups:
  "filter P (dropEmptyGroups as) = dropEmptyGroups (filter P as)"
  by (induction as) (simp_all add: dropEmptyGroups_def)

lemma log_level_in_ecs_record:
  "filter (\<lambda>a. Key a = logLevelKey) (record_attrs (ecs_record fn ctx r))
     = filter (\<lambda>a. Key a = logLevelKey) (record_attrs r)
       @ slog_String logLevelKey (fn (Level r))
       # filter (\<lambda>a. Key a = logLevelKey) (dropEmptyGroups (GetECSAttrs ctx))"
proof -
  have k: "logLevelKey \<noteq> ''!BUG''"
    by (simp add: logLevelKey_def)
  have "filter (\<lambda>a. Key a = logLevelKey) (dropEmptyGroups (allAttributes fn ctx r))
      = dropEmptyGroups (slog_String logLevelKey (fn (Level r))
          # filter (\<lambda>a. Key a = logLevelKey) (GetECSAttrs ctx))"
    by (simp only: filter_dropEmptyGroups log_level_attrs_ecs)
  also have "\<dots> = slog_String logLevelKey (fn (Level r))
          # filter (\<lambda>a. Key a = logLevelKey) (dropEmptyGroups (GetECSAttrs ctx))"
    by (simp add: filter_dropEmptyGroups) (simp add: dropEmptyGroups_def slog_String_def)
  finally show ?thesis
    by (simp add: ecs_record_def filter_AddAttrs [OF k])
qed

lemma log_level_in_log_record:
  "filter (\<lambda>a. Key a = logLevelKey) (record_attrs (log_record fn ctx r))
     = filter (\<lambda>a. Key a = logLevelKey) (record_attrs r)
       @ [slog_String logLevelKey (fn (Level r))]"
proof -
  have k: "logLevelKey \<noteq> ''!BUG''"
    by (simp add: logLevelKey_def)
  have "filter (\<lambda>a. Key a = logLevelKey) (dropEmptyGroups (log_attributes fn ctx r))
      = dropEmptyGroups [slog_String logLevelKey (fn (Level r))]"
    by (simp only: filter_dropEmptyGroups log_level_attrs_log)
  also have "\<dots> = [slog_String logLevelKey (fn (Level r))]"
    by (simp add: dropEmptyGroups_def slog_String_def)
  finally show ?thesis
    by (simp add: log_record_def filter_AddAttrs [OF k])
qed

lemma apply_Options_append:
  "apply_Options (options @ more_options) o' = apply_Options more_options (apply_Options options o')"
  by (induction options arbitrary: o') simp_all

lemma levelRenamer_configured:
  "levelRenamer (NewECSHandler stdout (options @ [WithLevelRenamer fn])) = fn"
  by (simp add: NewECSHandler_def Let_def apply_Options_append WithLevelRenamer_def)

lemma Handle_NewECSHandler:
  "Handle (NewECSHandler stdout options) ctx r w =
     (case opts_levelRenamer (apply_Options options defaultOptions) of
        None \<Rightarrow> Panic
      | Some f \<Rightarrow>
          Returned (stdout w
            (JSON_line
               \<lparr>opt_Level = opts_level (apply_Options options defaultOptions),
                ReplaceAttr = opts_replaceAttr (apply_Options options defaultOptions)\<rparr>
               (ecs_record f ctx r))))"
  by (simp add: Handle_def NewECSHandler_def Let_def NewJSONHandler_def JSONHandler_Handle_def
      split: option.splits)

lemma renamed_error_in_ecs_record:
  "slog_String ''log.level'' ''renamed_error''
     \<in> set (record_attrs (ecs_record test_levelRenamer ctx (r\<lparr>Level := LevelError\<rparr>)))"
  using string_in_ecs_record [OF fixed_in_allAttributes(1), of test_levelRenamer "r\<lparr>Level := LevelError\<rparr>" ctx]
  by (simp add: logLevelKey_def test_levelRenamer_error)

lemma renamed_error_in_log_record:
  "slog_String ''log.level'' ''renamed_error''
     \<in> set (record_attrs (log_record test_levelRenamer ctx (r\<lparr>Level := LevelError\<rparr>)))"
  using string_in_log_record [OF fixed_in_log_attributes(1), of test_levelRenamer "r\<lparr>Level := LevelError\<rparr>" ctx]
  by (simp add: logLevelKey_def test_levelRenamer_error)

text \<open>
  Claim C7. The level renamer given with \<open>WithLevelRenamer\<close> is the one the
  handler holds. \<open>Handle\<close> passes on the record with the attributes it builds
  appended; exactly one of the attributes \<open>Handle\<close> itself builds has the key
  \<open>log.level\<close>, and its value is the result of the renamer on the level of the
  record (the record may hold attributes under that key before it, and the ECS
  store may bring others after it).
  With the renamer of the test and a record of level error that attribute is
  \<open>log.level\<close> = \<open>renamed_error\<close>.
\<close>

theorem level_renamed_once:
  "levelRenamer (NewECSHandler stdout (options @ [WithLevelRenamer (Some fn)])) = Some fn
   \<and> Handle (h\<lparr>levelRenamer := Some fn, JSONHandler := Some jh\<rparr>) ctx r w
       = Returned (JSONHandler_Handle jh ctx (ecs_record fn ctx r) w)
   \<and> log_Handle (h\<lparr>levelRenamer := Some fn, JSONHandler := Some jh\<rparr>) ctx r w
       = Returned (JSONHandler_Handle jh ctx (log_record fn ctx r) w)
   \<and> filter (\<lambda>a. Key a = logLevelKey) (record_attrs (ecs_record fn ctx r))
       = filter (\<lambda>a. Key a = logLevelKey) (record_attrs r)
         @ slog_String logLevelKey (fn (Level r))
         # filter (\<lambda>a. Key a = logLevelKey) (dropEmptyGroups (GetECSAttrs ctx))
   \<and> filter (\<lambda>a. Key a = logLevelKey) (record_attrs (log_record fn ctx r))
       = filter (\<lambda>a. Key a = logLevelKey) (record_attrs r)
         @ [slog_String logLevelKey (fn (Level r))]
   \<and> filter (\<lambda>a. Key a = logLevelKey) (log_attributes fn ctx r)
       = [slog_String logLevelKey (fn (Level r))]
   \<and> filter (\<lambda>a. Key a = logLevelKey) (allAttributes fn ctx r)
       = slog_String logLevelKey (fn (Level r))
         # filter (\<lambda>a. Key a = logLevelKey) (GetECSAttrs ctx)
   \<and> test_levelRenamer LevelError = ''renamed_error''
   \<and> slog_String ''log.level'' ''renamed_error''
       \<in> set (record_attrs (ecs_record test_levelRenamer ctx (r\<lparr>Level := LevelError\<rparr>)))
   \<and> slog_String ''log.level'' ''renamed_error''
       \<in> set (record_attrs (log_record test_levelRenamer ctx (r\<lparr>Level := LevelError\<rparr>)))
   \<and> Handle (NewECSHandler stdout [WithLevelRenamer (Some test_levelRenamer)]) ctx
         (r\<lparr>Level := LevelError\<rparr>) w
       = Returned (stdout w
           (JSON_line \<lparr>opt_Level = LevelDebug, ReplaceAttr = Some defaultReplaceAttr\<rparr>
              (ecs_record test_levelRenamer ctx (r\<lparr>Level := LevelError\<rparr>))))"
proof (intro conjI)
  show "levelRenamer (NewECSHandler stdout (options @ [WithLevelRenamer (Some fn)])) = Some fn"
    by (rule levelRenamer_configured)
  show "Handle (h\<lparr>levelRenamer := Some fn, JSONHandler := Some jh\<rparr>) ctx r w
       = Returned (JSONHandler_Handle jh ctx (ecs_record fn ctx r) w)"
    by (rule Handle_Returned(1)) simp_all
  show "log_Handle (h\<lparr>levelRenamer := Some fn, JSONHandler := Some jh\<rparr>) ctx r w
       = Returned (JSONHandler_Handle jh ctx (log_record fn ctx r) w)"
    by (rule Handle_Returned(2)) simp_all
  show "filter (\<lambda>a. Key a = logLevelKey) (record_attrs (ecs_record fn ctx r))
       = filter (\<lambda>a. Key a = logLevelKey) (record_attrs r)
         @ slog_String logLevelKey (fn (Level r))
         # filter (\<lambda>a. Key a = logLevelKey) (dropEmptyGroups (GetECSAttrs ctx))"
    by (rule log_level_in_ecs_record)
  show "filter (\<lambda>a. Key a = logLevelKey) (record_attrs (log_record fn ctx r))
       = filter (\<lambda>a. Key a = logLevelKey) (record_attrs r)
         @ [slog_String logLevelKey (fn (Level r))]"
    by (rule log_level_in_log_record)
  show "filter (\<lambda>a. Key a = logLevelKey) (log_attributes fn ctx r)
       = [slog_String logLevelKey (fn (Level r))]"
    by (rule log_level_attrs_log)
  show "filter (\<lambda>a. Key a = logLevelKey) (allAttributes fn ctx r)
       = slog_String logLevelKey (fn (Level r))
         # filter (\<lambda>a. Key a = logLevelKey) (GetECSAttrs ctx)"
    by (rule log_level_attrs_ecs)
  show "test_levelRenamer LevelError = ''renamed_error''"
    by (rule test_levelRenamer_error)
  show "slog_String ''log.level'' ''renamed_error''
       \<in> set (record_attrs (ecs_record test_levelRenamer ctx (r\<lparr>Level := LevelError\<rparr>)))"
    by (rule renamed_error_in_ecs_record)
  show "slog_String ''log.level'' ''renamed_error''
       \<in> set (record_attrs (log_record test_levelRenamer ctx (r\<lparr>Level := LevelError\<rparr>)))"
    by (rule renamed_error_in_log_record)
  show "Handle (NewECSHandler stdout [WithLevelRenamer (Some test_levelRenamer)]) ctx
         (r\<lparr>Level := LevelError\<rparr>) w
       = Returned (stdout w
           (JSON_line \<lparr>opt_Level = LevelDebug, ReplaceAttr = Some defaultReplaceAttr\<rparr>
              (ecs_record test_levelRenamer ctx (r\<lparr>Level := LevelError\<rparr>))))"
    by (simp add: Handle_NewECSHandler WithLevelRenamer_def defaultOptions_def)
qed

text \<open>
  Claim C6, as amended. When the level renamer and the JSON handler are not nil,
  \<open>Handle\<close> returns what the one call of the writer returns for the line of the
  enriched record: its error is the error of that write, unchanged, and none
  when the write returns none; building the attributes adds no failure. When the
  level renamer or the JSON handler is nil, \<open>Handle\<close> panics before anything is
  written. A handler
  from \<open>NewECSHandler\<close> has the renamer the options leave, which is nil after
  \<open>WithLevelRenamer(nil)\<close>.
\<close>

theorem Handle_returns_write_error:
  "(levelRenamer h = Some f \<and> JSONHandler h = Some jh \<longrightarrow>
      Handle h ctx r w
        = Returned (handler_w jh w (JSON_line (handler_opts jh) (ecs_record f ctx r)))
      \<and> log_Handle h ctx r w
        = Returned (handler_w jh w (JSON_line (handler_opts jh) (log_record f ctx r))))
   \<and> (levelRenamer h = None \<or> JSONHandler h = None \<longrightarrow>
        Handle h ctx r w = Panic \<and> log_Handle h ctx r w = Panic)
   \<and> Handle (NewECSHandler stdout options) ctx r w =
       (case opts_levelRenamer (apply_Options options defaultOptions) of
          None \<Rightarrow> Panic
        | Some f' \<Rightarrow>
            Returned (stdout w
              (JSON_line
                 \<lparr>opt_Level = opts_level (apply_Options options defaultOptions),
                  ReplaceAttr = opts_replaceAttr (apply_Options options defaultOptions)\<rparr>
                 (ecs_record f' ctx r))))"
proof (intro conjI impI)
  assume a: "levelRenamer h = Some f \<and> JSONHandler h = Some jh"
  show "Handle h ctx r w
        = Returned (handler_w jh w (JSON_line (handler_opts jh) (ecs_record f ctx r)))"
    using Handle_Returned(1) [OF a [THEN conjunct1] a [THEN conjunct2], of ctx r w]
    by (simp add: JSONHandler_Handle_def)
  show "log_Handle h ctx r w
        = Returned (handler_w jh w (JSON_line (handler_opts jh) (log_record f ctx r)))"
    using Handle_Returned(2) [OF a [THEN conjunct1] a [THEN conjunct2], of ctx r w]
    by (simp add: JSONHandler_Handle_def)
next
  assume "levelRenamer h = None \<or> JSONHandler h = None"
  then show "Handle h ctx r w = Panic"
    by (auto simp: Handle_def split: option.splits)
next
  assume "levelRenamer h = None \<or> JSONHandler h = None"
  then show "log_Handle h ctx r w = Panic"
    by (auto simp: log_Handle_def split: option.splits)
next
  show "Handle (NewECSHandler stdout options) ctx r w =
       (case opts_levelRenamer (apply_Options options defaultOptions) of
          None \<Rightarrow> Panic
        | Some f' \<Rightarrow>
            Returned (stdout w
              (JSON_line
                 \<lparr>opt_Level = opts_level (apply_Options options defaultOptions),
                  ReplaceAttr = opts_replaceAttr (apply_Options options defaultOptions)\<rparr>
                 (ecs_record f' ctx r))))"
    by (rule Handle_NewECSHandler)
qed

theorem Handle_returns_write_error_witness:
  "levelRenamer test_handler = Some test_levelRenamer
   \<and> JSONHandler test_handler = Some test_JSONHandler
   \<and> Handle test_handler Background test_record []
       = Returned (handler_w test_JSONHandler []
           (JSON_line (handler_opts test_JSONHandler)
              (ecs_record test_levelRenamer Background test_record)))
   \<and> levelRenamer (NewECSHandler buffer_writer [WithLevelRenamer None]) = None
   \<and> Handle (NewECSHandler buffer_writer [WithLevelRenamer None]) Background test_record [] = Panic"
proof -
  have lr: "levelRenamer test_handler = Some test_levelRenamer"
    by (simp add: test_handler_def)
  have jh: "JSONHandler test_handler = Some test_JSONHandler"
    by (simp add: test_handler_def)
  have nil: "levelRenamer (NewECSHandler buffer_writer [WithLevelRenamer None]) = None"
    using levelRenamer_configured [of buffer_writer "[]" None] by simp
  note ok = Handle_returns_write_error [of test_handler test_levelRenamer test_JSONHandler
      Background test_record "[]", THEN conjunct1, THEN mp, OF conjI [OF lr jh], THEN conjunct1]
  note panic = Handle_returns_write_error [of "NewECSHandler buffer_writer [WithLevelRenamer None]"
      _ _ Background test_record "[]", THEN conjunct2, THEN conjunct1, THEN mp,
      OF disjI1 [OF nil], THEN conjunct1]
  show ?thesis
    using lr jh ok nil panic by (intro conjI)
qed

text \<open>
  The claim as stated fails for \<open>NewECSHandler(WithLevelRenamer(nil))\<close>: the
  writer into a buffer never fails, and for the handler with the default renamer
  it receives the line of the record; on the handler with the nil renamer
  \<open>Handle\<close> panics and returns nothing.
\<close>

theorem Handle_nil_renamer_counterexample:
  "Handle (NewECSHandler buffer_writer [WithLevelRenamer None]) Background test_record [] = Panic
   \<and> Handle (NewECSHandler buffer_writer []) Background test_record []
     = Returned ([Some (JObject
       [(''@timestamp'', JTime 1), (''message'', JString ''Test message''),
        (''log.level'', JString ''ERROR''), (''ecs.version'', JString ''8.11.0''),
        (''log.logger'', JString ''log/slog''),
        (''log.origin'', JObject [(''file.name'', JString ''handler_test.go''), (''file.line'', JNumber 38), (''function'', JString ''TestECSHandler'')])])], None)"
proof -
  have "Handle (NewECSHandler buffer_writer [WithLevelRenamer None]) Background test_record [] = Panic"
    by (simp add: Handle_NewECSHandler WithLevelRenamer_def)
  moreover have "Handle (NewECSHandler buffer_writer []) Background test_record []
     = Returned ([Some (JObject
       [(''@timestamp'', JTime 1), (''message'', JString ''Test message''),
        (''log.level'', JString ''ERROR''), (''ecs.version'', JString ''8.11.0''),
        (''log.logger'', JString ''log/slog''),
        (''log.origin'', JObject [(''file.name'', JString ''handler_test.go''), (''file.line'', JNumber 38), (''function'', JString ''TestECSHandler'')])])], None)"
    by code_simp
  ultimately show ?thesis by (intro conjI)
qed

text \<open>
  Claim C9. The middleware builds the context from the extractors first: its ECS
  store and its labels store hold the attributes of the extractors with a
  present result, in front of those the request came with. It then calls the
  wrapped handler on the request with that context, in the world as it found
  it; what the handler logs comes first, and after it, when the flag
  \<open>logRequest\<close> is set, exactly one call at level info with the message of the
  summary, under the same context; when the flag is not set the middleware logs
  nothing. A handler that logs under the context of its request reads the
  extracted attributes there.
\<close>

theorem summary_after_handler:
  "logCalls (attributes_handler options h r w)
     = logCalls (h (r\<lparr>Ctx := request_context options r\<rparr>) w)
       @ (if logRequest options
          then [LogCall (request_context options r) LevelInfo ''HTTP Request handled''] else [])
   \<and> World.more (attributes_handler options h r w)
     = World.more (h (r\<lparr>Ctx := request_context options r\<rparr>) w)
   \<and> logCalls (attributes_handler options (\<lambda>r'. slog_InfoContext (Ctx r') msg) r w)
     = logCalls w @ [LogCall (request_context options r) LevelInfo msg]
       @ (if logRequest options
          then [LogCall (request_context options r) LevelInfo ''HTTP Request handled''] else [])
   \<and> HTTPAttributesMiddleware opts h r w
     = attributes_handler
         (apply_options opts \<lparr>labelExtractors = [], ecsExtractors = [], logRequest = False\<rparr>) h r w
   \<and> GetECSAttrs (request_context options r)
     = map fst (filter snd (map (\<lambda>extract. extract r) (ecsExtractors options)))
       @ GetECSAttrs (Ctx r)
   \<and> GetLabelAttrs (request_context options r)
     = map fst (filter snd (map (\<lambda>extract. extract r) (labelExtractors options)))
       @ GetLabelAttrs (Ctx r)
   \<and> map (\<lambda>c. GetECSAttrs (call_ctx c))
        (logCalls (attributes_handler options (\<lambda>r'. slog_InfoContext (Ctx r') msg) r
                     (w\<lparr>logCalls := []\<rparr>)))
     = (let extracted = map fst (filter snd (map (\<lambda>extract. extract r) (ecsExtractors options)))
                        @ GetECSAttrs (Ctx r)
        in if logRequest options then [extracted, extracted] else [extracted])"
proof -
  have a: "logCalls (attributes_handler options h r w)
     = logCalls (h (r\<lparr>Ctx := request_context options r\<rparr>) w)
       @ (if logRequest options
          then [LogCall (request_context options r) LevelInfo ''HTTP Request handled''] else [])
   \<and> World.more (attributes_handler options h r w)
     = World.more (h (r\<lparr>Ctx := request_context options r\<rparr>) w)
   \<and> logCalls (attributes_handler options (\<lambda>r'. slog_InfoContext (Ctx r') msg) r w)
     = logCalls w @ [LogCall (request_context options r) LevelInfo msg]
       @ (if logRequest options
          then [LogCall (request_context options r) LevelInfo ''HTTP Request handled''] else [])
   \<and> HTTPAttributesMiddleware opts h r w
     = attributes_handler
         (apply_options opts \<lparr>labelExtractors = [], ecsExtractors = [], logRequest = False\<rparr>) h r w"
    by (simp add: attributes_handler_def HTTPAttributesMiddleware_def slog_InfoContext_def Let_def)
  have b: "map (\<lambda>c. GetECSAttrs (call_ctx c))
        (logCalls (attributes_handler options (\<lambda>r'. slog_InfoContext (Ctx r') msg) r
                     (w\<lparr>logCalls := []\<rparr>)))
     = (let extracted = map fst (filter snd (map (\<lambda>extract. extract r) (ecsExtractors options)))
                        @ GetECSAttrs (Ctx r)
        in if logRequest options then [extracted, extracted] else [extracted])"
    by (simp add: attributes_handler_def slog_InfoContext_def Let_def GetECSAttrs_request_context)
  show ?thesis
    using a GetECSAttrs_request_context [of options r] GetLabelAttrs_request_context [of options r] b
    by (intro conjI) (elim conjE, assumption)+
qed

lemma extract_loop_skip:
  assumes "snd (ex r) = False"
  shows "extract_loop (es1 @ ex # es2) r acc = extract_loop (es1 @ es2) r acc"
  using assms by (simp add: extract_loop_present)

text \<open>
  Claim C10. When the value \<open>Header.Get\<close> returns for the name has length zero,
  \<open>ExtractHeaderRename\<close> returns the absent outcome, the loop over the
  extractors adds nothing for it and the store stays as it was. A header that is
  present with an empty first value gives the same result as a header that is
  absent.
\<close>

theorem empty_header_is_absent:
  assumes "length (Header_Get (Header r) name) = 0"
  shows "ExtractHeaderRename name rename r = (zeroAttr, False)
       \<and> extract_loop (es1 @ ExtractHeaderRename name rename # es2) r acc
           = extract_loop (es1 @ es2) r acc
       \<and> GetECSAttrs (request_context (options\<lparr>ecsExtractors := [ExtractHeaderRename name rename]\<rparr>) r)
           = GetECSAttrs (Ctx r)
       \<and> GetLabelAttrs (request_context (options\<lparr>labelExtractors := [ExtractHeaderRename name rename]\<rparr>) r)
           = GetLabelAttrs (Ctx r)
       \<and> Header_Get (hs(CanonicalMIMEHeaderKey name \<mapsto> [] # vs)) name = []
       \<and> Header_Get (hs(CanonicalMIMEHeaderKey name := None)) name = []
       \<and> ExtractHeaderRename name rename (r\<lparr>Header := hs(CanonicalMIMEHeaderKey name \<mapsto> [] # vs)\<rparr>)
           = ExtractHeaderRename name rename (r\<lparr>Header := hs(CanonicalMIMEHeaderKey name := None)\<rparr>)"
proof -
  have e: "ExtractHeaderRename name rename r = (zeroAttr, False)"
    using assms by (simp add: ExtractHeaderRename_def)
  have s: "extract_loop (es1 @ ExtractHeaderRename name rename # es2) r acc
           = extract_loop (es1 @ es2) r acc"
    by (rule extract_loop_skip) (simp add: e)
  have g1: "GetECSAttrs (request_context (options\<lparr>ecsExtractors := [ExtractHeaderRename name rename]\<rparr>) r)
           = GetECSAttrs (Ctx r)"
    by (simp add: GetECSAttrs_request_context e)
  have g2: "GetLabelAttrs (request_context (options\<lparr>labelExtractors := [ExtractHeaderRename name rename]\<rparr>) r)
           = GetLabelAttrs (Ctx r)"
    by (simp add: GetLabelAttrs_request_context e)
  have h1: "Header_Get (hs(CanonicalMIMEHeaderKey name \<mapsto> [] # vs)) name = []"
    by (simp add: Header_Get_def)
  have h2: "Header_Get (hs(CanonicalMIMEHeaderKey name := None)) name = []"
    by (simp add: Header_Get_def)
  have x: "ExtractHeaderRename name rename (r\<lparr>Header := hs(CanonicalMIMEHeaderKey name \<mapsto> [] # vs)\<rparr>)
           = ExtractHeaderRename name rename (r\<lparr>Header := hs(CanonicalMIMEHeaderKey name := None)\<rparr>)"
    by (simp add: ExtractHeaderRename_def h1 h2)
  show ?thesis
    using e s g1 g2 h1 h2 x by (intro conjI)
qed

theorem empty_header_is_absent_witness:
  "length (Header_Get (Header (test_request\<lparr>Header := [''Authorization'' \<mapsto> [[]]]\<rparr>)) ''Authorization'') = 0
   \<and> ExtractHeaderRename ''Authorization'' ''auth.token''
        (test_request\<lparr>Header := [''Authorization'' \<mapsto> [[]]]\<rparr>) = (zeroAttr, False)
   \<and> GetECSAttrs (request_context test_options (test_request\<lparr>Header := [''Authorization'' \<mapsto> [[]]]\<rparr>)) = []"
proof -
  let ?r = "test_request\<lparr>Header := [''Authorization'' \<mapsto> [[]]]\<rparr>"
  have h: "length (Header_Get (Header ?r) ''Authorization'') = 0"
    by (simp add: Header_Get_def canonical_Authorization)
  note t = empty_header_is_absent [OF h, of "''auth.token''" "[]" "[]" "[]" test_options]
  have o: "test_options\<lparr>ecsExtractors := [ExtractHeaderRename ''Authorization'' ''auth.token'']\<rparr> = test_options"
    by (simp add: test_options_def)
  have "GetECSAttrs (request_context test_options ?r) = GetECSAttrs (Ctx ?r)"
    using t [THEN conjunct2, THEN conjunct2, THEN conjunct1] by (simp only: o)
  then have "GetECSAttrs (request_context test_options ?r) = []"
    by (simp add: test_request_def GetECSAttrs_Background)
  then show ?thesis
    using h t [THEN conjunct1] by (intro conjI)
qed

end
